theory Spec2Isabelle
  imports Complex_Main "HOL-Library.AList"
begin

section \<open>The panel layout engine (PanelManager.js)\<close>

text \<open>
  A shallow embedding of the class \<open>PanelManager\<close> and of the three host callers that
  create its panels. JavaScript numbers are modelled as exact rationals; a CSS length
  written as \<open>`${x}px`\<close> is modelled by the number \<open>x\<close>, and an inline style is taken
  to read back as it was written. DOM elements live in an explicit
  store (\<open>elements\<close>, addresses allocated by \<open>createPanel\<close>), because the drag and resize
  sessions keep a reference to the element itself, not to its registry entry.
\<close>

subsection \<open>Data model\<close>

text \<open>A DOMRect as returned by \<open>getBoundingClientRect()\<close> (viewport coordinates).\<close>

record rect =
  r_left :: rat
  r_top :: rat
  r_width :: rat
  r_height :: rat

text \<open>
  The panel's \<open>div\<close>: its id, the four inline style lengths, \<open>style.zIndex\<close> (unset until
  the first focus), the classes the manager toggles, whether the resize handles and the
  close button were written into \<open>innerHTML\<close>, and whether it is attached to the workspace.
\<close>

record element =
  eid :: string
  left_px :: rat
  top_px :: rat
  width_px :: rat
  height_px :: rat
  zIndex :: "int option"
  cl_focused :: bool
  cl_hidden :: bool
  cl_maximized :: bool
  cl_dragging :: bool
  cl_resizing :: bool
  handles :: bool
  close_button :: bool
  attached :: bool

text \<open>\<open>panelData.config\<close>: \<open>{ id, title, minWidth, minHeight, resizable, closable }\<close>.\<close>

record config =
  cid :: string
  title :: string
  minWidth :: rat
  minHeight :: rat
  resizable :: bool
  closable :: bool

text \<open>\<open>state.prevBounds\<close>: the four style strings saved by maximize.\<close>

record bounds =
  pb_left :: rat
  pb_top :: rat
  pb_width :: rat
  pb_height :: rat

record pstate =
  minimized :: bool
  maximized :: bool
  prevBounds :: "bounds option"

record panelData =
  element :: nat
  config :: config
  state :: pstate

text \<open>
  The argument of \<open>createPanel\<close>. A field left out (\<open>undefined\<close>) is \<open>None\<close> and takes the
  destructuring default. \<open>icon\<close> and \<open>content\<close> are display payload that no operation
  reads back; they are left out.
\<close>

record panel_config =
  c_id :: string
  c_title :: string
  c_x :: "rat option"
  c_y :: "rat option"
  c_width :: "rat option"
  c_height :: "rat option"
  c_minWidth :: "rat option"
  c_minHeight :: "rat option"
  c_resizable :: "bool option"
  c_closable :: "bool option"

text \<open>A mouse event: \<open>clientX\<close>, \<open>clientY\<close>.\<close>

record mouse =
  clientX :: rat
  clientY :: rat

record dragState =
  drag_panel :: nat
  drag_id :: string
  drag_startX :: rat
  drag_startY :: rat
  drag_startLeft :: rat
  drag_startTop :: rat
  drag_width :: rat
  drag_height :: rat

record resizeState =
  resize_panel :: nat
  resize_id :: string
  resize_direction :: string
  resize_startX :: rat
  resize_startY :: rat
  resize_startLeft :: rat
  resize_startTop :: rat
  resize_startWidth :: rat
  resize_startHeight :: rat
  resize_minWidth :: rat
  resize_minHeight :: rat

text \<open>One entry of the persisted document.\<close>

record saved =
  sv_x :: rat
  sv_y :: rat
  sv_width :: rat
  sv_height :: rat
  sv_minimized :: bool
  sv_maximized :: bool

text \<open>
  The string stored under \<open>'orbrya_panels'\<close>: either the JSON of a layout document, or
  text on which \<open>JSON.parse\<close> throws. \<open>JSON.stringify\<close> followed by \<open>JSON.parse\<close> gives
  back the same numbers and booleans, so the document stands for its own JSON.
\<close>

datatype stored = Json "(string \<times> saved) list" | Unparsable

text \<open>
  The manager. \<open>panels\<close> is the \<open>Map\<close> in insertion order; \<open>elements\<close>/\<open>nextEl\<close> is the
  element store; the guide fields are the two snap-guide elements; \<open>dispatched\<close> logs the
  \<open>panelresize\<close> events (target element and \<open>detail\<close>); \<open>storage\<close> is the localStorage
  item.
\<close>

record manager =
  panels :: "(string \<times> panelData) list"
  activePanel :: "string option"
  dragState :: "dragState option"
  resizeState :: "resizeState option"
  baseZIndex :: int
  topZIndex :: int
  snapThreshold :: rat
  savedStates :: "(string \<times> saved) list option"
  elements :: "nat \<Rightarrow> element"
  nextEl :: nat
  guideV_visible :: bool
  guideV_left :: "rat option"
  guideH_visible :: bool
  guideH_top :: "rat option"
  bodyCursor :: string
  dispatched :: "(nat \<times> (rat \<times> rat) option) list"
  storage :: "stored option"

text \<open>
  What the browser's layout contributes: the workspace's bounding rectangle and the
  rendered rectangle of a panel element (the stylesheet is not part of the sources, so
  the rendering is a parameter), \<open>window.innerWidth\<close>, and for a number that prints in
  exponent notation the signed integer that \<open>parseInt\<close> reads off its print: the digits
  before the \<open>.\<close> or the \<open>e\<close> (the print rounds to the shortest digits of the
  floating-point value, which a rational does not determine, so it is a parameter too).
\<close>

record host =
  workspaceRect :: rect
  getBoundingClientRect :: "element \<Rightarrow> rect"
  innerWidth :: rat
  exponent_digits :: "rat \<Rightarrow> int"

text \<open>
  A handler either returns or throws a \<open>TypeError\<close>; the mutations made before the throw
  stay, so both carry the manager.
\<close>

datatype outcome = Returned manager | TypeError manager

fun state_of :: "outcome \<Rightarrow> manager" where
  "state_of (Returned m) = m"
| "state_of (TypeError m) = m"

subsection \<open>Helpers\<close>

definition default_to :: "'a \<Rightarrow> 'a option \<Rightarrow> 'a" where
  "default_to d v = (case v of None \<Rightarrow> d | Some x \<Rightarrow> x)"

text \<open>
  A number prints in plain decimal notation when it is \<open>0\<close> or its magnitude is at least
  \<open>10\<^sup>-\<^sup>6\<close> and below \<open>10\<^sup>2\<^sup>1\<close>; otherwise it prints in exponent notation
  (\<open>1e+21\<close>, \<open>1e-7\<close>).
\<close>

definition plain_decimal :: "rat \<Rightarrow> bool" where
  "plain_decimal q = (q = 0 \<or> (1 / 10 ^ 6 \<le> \<bar>q\<bar> \<and> \<bar>q\<bar> < 10 ^ 21))"

definition truncate_toward_zero :: "rat \<Rightarrow> rat" where
  "truncate_toward_zero q = (if 0 \<le> q then of_int \<lfloor>q\<rfloor> else of_int \<lceil>q\<rceil>)"

text \<open>
  \<open>parseInt\<close> of a \<open>`${x}px`\<close> string reads the leading integer of the print of \<open>x\<close>:
  the integer part of \<open>x\<close>, truncated toward zero, when \<open>x\<close> prints in plain decimal
  notation; the digits in front of the \<open>.\<close> or the \<open>e\<close> when it prints in exponent
  notation.
\<close>

definition parseInt :: "host \<Rightarrow> rat \<Rightarrow> rat" where
  "parseInt h q =
     (if plain_decimal q then truncate_toward_zero q else of_int (exponent_digits h q))"

definition str_includes :: "string \<Rightarrow> char \<Rightarrow> bool" where
  "str_includes s c = (c \<in> set s)"

definition upd_el :: "nat \<Rightarrow> (element \<Rightarrow> element) \<Rightarrow> manager \<Rightarrow> manager" where
  "upd_el a f m = m\<lparr>elements := (elements m)(a := f (elements m a))\<rparr>"

definition upd_state :: "string \<Rightarrow> panelData \<Rightarrow> (pstate \<Rightarrow> pstate) \<Rightarrow> manager \<Rightarrow> manager" where
  "upd_state pid panelData f m =
     m\<lparr>panels := AList.update pid (panelData\<lparr>state := f (state panelData)\<rparr>) (panels m)\<rparr>"

text \<open>The four inline style lengths of an element: the panel's geometry.\<close>

definition style_bounds :: "element \<Rightarrow> bounds" where
  "style_bounds el =
     \<lparr>pb_left = left_px el, pb_top = top_px el, pb_width = width_px el, pb_height = height_px el\<rparr>"

subsection \<open>Snap guides\<close>

datatype guide_type = Vertical | Horizontal

definition showSnapGuide :: "manager \<Rightarrow> guide_type \<Rightarrow> rat \<Rightarrow> manager" where
  "showSnapGuide m ty position =
     (case ty of
        Vertical \<Rightarrow> m\<lparr>guideV_visible := True, guideV_left := Some position\<rparr>
      | Horizontal \<Rightarrow> m\<lparr>guideH_visible := True, guideH_top := Some position\<rparr>)"

definition hideSnapGuides :: "manager \<Rightarrow> manager" where
  "hideSnapGuides m = m\<lparr>guideV_visible := False, guideH_visible := False\<rparr>"

subsection \<open>calculateSnap\<close>

record snap =
  snapX :: rat
  snapY :: rat
  snappedV :: bool
  snappedH :: bool
  snapPosV :: rat
  snapPosH :: rat

text \<open>The body of the \<open>forEach\<close> callback: one sibling, eight checks in source order.\<close>

definition snap_to_panel ::
  "host \<Rightarrow> manager \<Rightarrow> string \<Rightarrow> rat \<Rightarrow> rat \<Rightarrow> rat \<Rightarrow> rat \<Rightarrow> string \<times> panelData \<Rightarrow> snap \<Rightarrow> snap" where
  "snap_to_panel h m panelId newX newY width height entry s =
     (if fst entry = panelId then s
      else
        let el = elements m (element (snd entry)) in
        if cl_hidden el \<or> cl_maximized el then s
        else
          let t = snapThreshold m;
              rect = getBoundingClientRect h el;
              pLeft = r_left rect - r_left (workspaceRect h);
              pTop = r_top rect - r_top (workspaceRect h);
              pRight = pLeft + r_width rect;
              pBottom = pTop + r_height rect;
              s1 = (if \<bar>newX - pRight\<bar> < t
                    then s\<lparr>snapX := pRight, snappedV := True, snapPosV := pRight\<rparr> else s);
              s2 = (if \<bar>newX + width - pLeft\<bar> < t
                    then s1\<lparr>snapX := pLeft - width, snappedV := True, snapPosV := pLeft\<rparr> else s1);
              s3 = (if \<bar>newX - pLeft\<bar> < t
                    then s2\<lparr>snapX := pLeft, snappedV := True, snapPosV := pLeft\<rparr> else s2);
              s4 = (if \<bar>newX + width - pRight\<bar> < t
                    then s3\<lparr>snapX := pRight - width, snappedV := True, snapPosV := pRight\<rparr> else s3);
              s5 = (if \<bar>newY - pBottom\<bar> < t
                    then s4\<lparr>snapY := pBottom, snappedH := True, snapPosH := pBottom\<rparr> else s4);
              s6 = (if \<bar>newY + height - pTop\<bar> < t
                    then s5\<lparr>snapY := pTop - height, snappedH := True, snapPosH := pTop\<rparr> else s5);
              s7 = (if \<bar>newY - pTop\<bar> < t
                    then s6\<lparr>snapY := pTop, snappedH := True, snapPosH := pTop\<rparr> else s6);
              s8 = (if \<bar>newY + height - pBottom\<bar> < t
                    then s7\<lparr>snapY := pBottom - height, snappedH := True, snapPosH := pBottom\<rparr> else s7)
          in s8)"

definition calculateSnap ::
  "host \<Rightarrow> manager \<Rightarrow> string \<Rightarrow> rat \<Rightarrow> rat \<Rightarrow> rat \<Rightarrow> rat \<Rightarrow> snap" where
  "calculateSnap h m panelId newX newY width height =
     (let wW = r_width (workspaceRect h);
          wH = r_height (workspaceRect h);
          t = snapThreshold m;
          s0 = \<lparr>snapX = newX, snapY = newY, snappedV = False, snappedH = False,
                snapPosV = 0, snapPosH = 0\<rparr>;
          s1 = (if \<bar>newX\<bar> < t
                then s0\<lparr>snapX := 0, snappedV := True, snapPosV := 0\<rparr> else s0);
          s2 = (if \<bar>newX + width - wW\<bar> < t
                then s1\<lparr>snapX := wW - width, snappedV := True, snapPosV := wW\<rparr> else s1);
          s3 = (if \<bar>newY\<bar> < t
                then s2\<lparr>snapY := 0, snappedH := True, snapPosH := 0\<rparr> else s2);
          s4 = (if \<bar>newY + height - wH\<bar> < t
                then s3\<lparr>snapY := wH - height, snappedH := True, snapPosH := wH\<rparr> else s3)
      in fold (snap_to_panel h m panelId newX newY width height) (panels m) s4)"

subsection \<open>Panel operations\<close>

definition createPanel :: "manager \<Rightarrow> panel_config \<Rightarrow> manager" where
  "createPanel m cfg =
     (let pid = c_id cfg;
          x = default_to 100 (c_x cfg);
          y = default_to 100 (c_y cfg);
          width = default_to 300 (c_width cfg);
          height = default_to 400 (c_height cfg);
          minW = default_to 200 (c_minWidth cfg);
          minH = default_to 150 (c_minHeight cfg);
          res = default_to True (c_resizable cfg);
          clo = default_to True (c_closable cfg);
          a = nextEl m;
          panel = \<lparr>eid = pid, left_px = x, top_px = y, width_px = width, height_px = height,
                   zIndex = None, cl_focused = False, cl_hidden = False, cl_maximized = False,
                   cl_dragging = False, cl_resizing = False,
                   handles = res, close_button = clo, attached = True\<rparr>
      in m\<lparr>panels :=
             AList.update pid
               \<lparr>element = a,
                config = \<lparr>cid = pid, title = c_title cfg, minWidth = minW, minHeight = minH,
                           resizable = res, closable = clo\<rparr>,
                state = \<lparr>minimized = False, maximized = False, prevBounds = None\<rparr>\<rparr>
               (panels m),
           elements := (elements m)(a := panel),
           nextEl := a + 1\<rparr>)"

text \<open>\<open>this.panels.forEach((data) => data.element.classList.remove('focused'))\<close>\<close>

definition clear_focus :: "(string \<times> panelData) list \<Rightarrow> (nat \<Rightarrow> element) \<Rightarrow> nat \<Rightarrow> element" where
  "clear_focus ps es =
     fold (\<lambda>entry es'. es'(element (snd entry) := (es' (element (snd entry)))\<lparr>cl_focused := False\<rparr>))
       ps es"

definition focusPanel :: "manager \<Rightarrow> string \<Rightarrow> manager" where
  "focusPanel m pid =
     (let m1 = m\<lparr>elements := clear_focus (panels m) (elements m)\<rparr> in
      case map_of (panels m1) pid of
        None \<Rightarrow> m1
      | Some panelData \<Rightarrow>
          (let z = topZIndex m1 + 1;
               m2 = m1\<lparr>topZIndex := z\<rparr>;
               m3 = upd_el (element panelData) (\<lambda>el. el\<lparr>zIndex := Some z, cl_focused := True\<rparr>) m2
           in m3\<lparr>activePanel := Some pid\<rparr>))"

definition minimizePanel :: "manager \<Rightarrow> string \<Rightarrow> manager" where
  "minimizePanel m pid =
     (case map_of (panels m) pid of
        None \<Rightarrow> m
      | Some panelData \<Rightarrow>
          upd_state pid panelData (\<lambda>s. s\<lparr>minimized := True\<rparr>)
            (upd_el (element panelData) (\<lambda>el. el\<lparr>cl_hidden := True\<rparr>) m))"

text \<open>
  On restore the four saved strings are copied back; \<open>prev.left\<close> throws when
  \<open>prevBounds\<close> is \<open>null\<close>, before anything is changed.
\<close>

definition toggleMaximize :: "manager \<Rightarrow> string \<Rightarrow> outcome" where
  "toggleMaximize m pid =
     (case map_of (panels m) pid of
        None \<Rightarrow> Returned m
      | Some panelData \<Rightarrow>
          (let a = element panelData; panel = elements m a in
           if maximized (state panelData) then
             (case prevBounds (state panelData) of
                None \<Rightarrow> TypeError m
              | Some prev \<Rightarrow>
                  (let m1 = upd_el a (\<lambda>el. el\<lparr>left_px := pb_left prev, top_px := pb_top prev,
                                               width_px := pb_width prev, height_px := pb_height prev,
                                               cl_maximized := False\<rparr>) m;
                       m2 = upd_state pid panelData (\<lambda>s. s\<lparr>maximized := False\<rparr>) m1
                   in Returned (m2\<lparr>dispatched := dispatched m2 @ [(a, None)]\<rparr>)))
           else
             (let m1 = upd_state pid panelData
                         (\<lambda>s. s\<lparr>prevBounds := Some \<lparr>pb_left = left_px panel, pb_top = top_px panel,
                                                      pb_width = width_px panel,
                                                      pb_height = height_px panel\<rparr>,
                                 maximized := True\<rparr>) m;
                  m2 = upd_el a (\<lambda>el. el\<lparr>cl_maximized := True\<rparr>) m1
              in Returned (m2\<lparr>dispatched := dispatched m2 @ [(a, None)]\<rparr>))))"

subsection \<open>Persistence\<close>

text \<open>
  \<open>savePanelStates\<close>: \<open>states\<close> is a plain object. The keys of a \<open>Map\<close> are unique, so
  each \<open>states[id] = ...\<close> adds a new own property, except for the id \<open>__proto__\<close>:
  that assignment sets the prototype of \<open>states\<close> and adds no property, and
  \<open>JSON.stringify\<close> writes own properties only, so a panel with this id is not
  persisted. The document is only ever read by key, so the order of its entries is not
  observable.
\<close>

definition savePanelStates :: "host \<Rightarrow> manager \<Rightarrow> manager" where
  "savePanelStates h m =
     (let states =
            map (\<lambda>entry.
                   let el = elements m (element (snd entry));
                       rect = getBoundingClientRect h el
                   in (fst entry,
                       \<lparr>sv_x = parseInt h (left_px el), sv_y = parseInt h (top_px el),
                        sv_width = r_width rect, sv_height = r_height rect,
                        sv_minimized = minimized (state (snd entry)),
                        sv_maximized = maximized (state (snd entry))\<rparr>))
              (filter (\<lambda>entry. fst entry \<noteq> ''__proto__'') (panels m))
      in m\<lparr>storage := Some (Json states)\<rparr>)"

definition loadPanelStates :: "manager \<Rightarrow> manager" where
  "loadPanelStates m =
     (case storage m of
        None \<Rightarrow> m
      | Some Unparsable \<Rightarrow> m
      | Some (Json doc) \<Rightarrow> m\<lparr>savedStates := Some doc\<rparr>)"

text \<open>
  \<open>getSavedState\<close>: \<open>this.savedStates?.[id]\<close>. For an id that has no entry of its own
  in the document but names a property of \<open>Object.prototype\<close>, the lookup gives an
  object without \<open>x\<close>, \<open>y\<close>, \<open>width\<close> and \<open>height\<close>, which every caller treats like
  \<open>undefined\<close>; it is \<open>None\<close> here.
\<close>

definition getSavedState :: "manager \<Rightarrow> string \<Rightarrow> saved option" where
  "getSavedState m pid = (case savedStates m of None \<Rightarrow> None | Some doc \<Rightarrow> map_of doc pid)"

definition getPanel :: "manager \<Rightarrow> string \<Rightarrow> panelData option" where
  "getPanel m pid = map_of (panels m) pid"

definition closePanel :: "host \<Rightarrow> manager \<Rightarrow> string \<Rightarrow> manager" where
  "closePanel h m pid =
     (case map_of (panels m) pid of
        None \<Rightarrow> m
      | Some panelData \<Rightarrow>
          (let m1 = upd_el (element panelData) (\<lambda>el. el\<lparr>attached := False\<rparr>) m;
               m2 = m1\<lparr>panels := AList.delete pid (panels m1)\<rparr>
           in savePanelStates h m2))"

definition showPanel :: "manager \<Rightarrow> string \<Rightarrow> manager" where
  "showPanel m pid =
     (case map_of (panels m) pid of
        None \<Rightarrow> m
      | Some panelData \<Rightarrow>
          focusPanel
            (upd_state pid panelData (\<lambda>s. s\<lparr>minimized := False\<rparr>)
               (upd_el (element panelData) (\<lambda>el. el\<lparr>cl_hidden := False\<rparr>) m))
            pid)"

subsection \<open>Drag and resize sessions\<close>

definition startDrag :: "host \<Rightarrow> manager \<Rightarrow> mouse \<Rightarrow> nat \<Rightarrow> string \<Rightarrow> manager" where
  "startDrag h m e panel pid =
     (let m1 = focusPanel m pid;
          rect = getBoundingClientRect h (elements m1 panel);
          workspace = workspaceRect h;
          m2 = m1\<lparr>dragState :=
                    Some \<lparr>drag_panel = panel, drag_id = pid,
                          drag_startX = clientX e, drag_startY = clientY e,
                          drag_startLeft = r_left rect - r_left workspace,
                          drag_startTop = r_top rect - r_top workspace,
                          drag_width = r_width rect, drag_height = r_height rect\<rparr>,
                  bodyCursor := ''move''\<rparr>
      in upd_el panel (\<lambda>el. el\<lparr>cl_dragging := True\<rparr>) m2)"

text \<open>\<open>panelData.config\<close> throws when the id is not in the registry (after the focus call).\<close>

definition startResize :: "host \<Rightarrow> manager \<Rightarrow> mouse \<Rightarrow> nat \<Rightarrow> string \<Rightarrow> string \<Rightarrow> outcome" where
  "startResize h m e panel pid direction =
     (let m1 = focusPanel m pid;
          rect = getBoundingClientRect h (elements m1 panel);
          workspace = workspaceRect h
      in case map_of (panels m1) pid of
           None \<Rightarrow> TypeError m1
         | Some panelData \<Rightarrow>
             (let m2 = m1\<lparr>resizeState :=
                            Some \<lparr>resize_panel = panel, resize_id = pid,
                                  resize_direction = direction,
                                  resize_startX = clientX e, resize_startY = clientY e,
                                  resize_startLeft = r_left rect - r_left workspace,
                                  resize_startTop = r_top rect - r_top workspace,
                                  resize_startWidth = r_width rect,
                                  resize_startHeight = r_height rect,
                                  resize_minWidth = minWidth (config panelData),
                                  resize_minHeight = minHeight (config panelData)\<rparr>\<rparr>
              in Returned (upd_el panel (\<lambda>el. el\<lparr>cl_resizing := True\<rparr>) m2)))"

definition handleDrag :: "host \<Rightarrow> manager \<Rightarrow> dragState \<Rightarrow> mouse \<Rightarrow> manager" where
  "handleDrag h m ds e =
     (let dx = clientX e - drag_startX ds;
          dy = clientY e - drag_startY ds;
          newX = drag_startLeft ds + dx;
          newY = drag_startTop ds + dy;
          snp = calculateSnap h m (drag_id ds) newX newY (drag_width ds) (drag_height ds);
          m1 = (if snappedV snp then showSnapGuide m Vertical (snapPosV snp)
                else m\<lparr>guideV_visible := False\<rparr>);
          m2 = (if snappedH snp then showSnapGuide m1 Horizontal (snapPosH snp)
                else m1\<lparr>guideH_visible := False\<rparr>)
      in upd_el (drag_panel ds) (\<lambda>el. el\<lparr>left_px := snapX snp, top_px := snapY snp\<rparr>) m2)"

definition handleResize :: "manager \<Rightarrow> resizeState \<Rightarrow> mouse \<Rightarrow> manager" where
  "handleResize m rs e =
     (let direction = resize_direction rs;
          dx = clientX e - resize_startX rs;
          dy = clientY e - resize_startY rs;
          newLeft0 = resize_startLeft rs;
          newTop0 = resize_startTop rs;
          newWidth0 = resize_startWidth rs;
          newHeight0 = resize_startHeight rs;
          newWidth1 = (if str_includes direction CHR ''e''
                       then max (resize_minWidth rs) (resize_startWidth rs + dx) else newWidth0);
          newWidth = (if str_includes direction CHR ''w''
                      then max (resize_minWidth rs) (resize_startWidth rs - dx) else newWidth1);
          newLeft = (if str_includes direction CHR ''w'' \<and> newWidth > resize_minWidth rs
                     then resize_startLeft rs + dx else newLeft0);
          newHeight1 = (if str_includes direction CHR ''s''
                        then max (resize_minHeight rs) (resize_startHeight rs + dy) else newHeight0);
          newHeight = (if str_includes direction CHR ''n''
                       then max (resize_minHeight rs) (resize_startHeight rs - dy) else newHeight1);
          newTop = (if str_includes direction CHR ''n'' \<and> newHeight > resize_minHeight rs
                    then resize_startTop rs + dy else newTop0);
          m1 = upd_el (resize_panel rs)
                 (\<lambda>el. el\<lparr>left_px := newLeft, top_px := newTop,
                           width_px := newWidth, height_px := newHeight\<rparr>) m
      in m1\<lparr>dispatched := dispatched m1 @ [(resize_panel rs, Some (newWidth, newHeight))]\<rparr>)"

definition handleMouseMove :: "host \<Rightarrow> manager \<Rightarrow> mouse \<Rightarrow> manager" where
  "handleMouseMove h m e =
     (case dragState m of
        Some ds \<Rightarrow> handleDrag h m ds e
      | None \<Rightarrow> (case resizeState m of Some rs \<Rightarrow> handleResize m rs e | None \<Rightarrow> m))"

definition handleMouseUp :: "host \<Rightarrow> manager \<Rightarrow> manager" where
  "handleMouseUp h m =
     (let m1 = (case dragState m of
                  None \<Rightarrow> m
                | Some ds \<Rightarrow>
                    savePanelStates h
                      (hideSnapGuides
                         (upd_el (drag_panel ds) (\<lambda>el. el\<lparr>cl_dragging := False\<rparr>)
                            (m\<lparr>bodyCursor := ''''\<rparr>))));
          m2 = (case resizeState m1 of
                  None \<Rightarrow> m1
                | Some rs \<Rightarrow>
                    savePanelStates h
                      (upd_el (resize_panel rs) (\<lambda>el. el\<lparr>cl_resizing := False\<rparr>) m1))
      in m2\<lparr>dragState := None, resizeState := None\<rparr>)"

subsection \<open>Construction\<close>

text \<open>The content of an address that \<open>createPanel\<close> has not allocated yet.\<close>

definition no_element :: element where
  "no_element =
     \<lparr>eid = [], left_px = 0, top_px = 0, width_px = 0, height_px = 0, zIndex = None,
      cl_focused = False, cl_hidden = False, cl_maximized = False, cl_dragging = False,
      cl_resizing = False, handles = False, close_button = False, attached = False\<rparr>"

text \<open>
  The constructor followed by \<open>init()\<close>: the fields, \<open>loadPanelStates()\<close>, and the two
  snap guides (created invisible). The argument is the localStorage item found.
\<close>

definition constructor :: "stored option \<Rightarrow> manager" where
  "constructor item =
     loadPanelStates
       \<lparr>panels = [], activePanel = None, dragState = None, resizeState = None,
        baseZIndex = 100, topZIndex = 100, snapThreshold = 15, savedStates = None,
        elements = (\<lambda>a. no_element), nextEl = 0,
        guideV_visible = False, guideV_left = None,
        guideH_visible = False, guideH_top = None,
        bodyCursor = [], dispatched = [], storage = item\<rparr>"

subsection \<open>The callers that create panels\<close>

text \<open>\<open>saved?.x ?? d\<close>\<close>

definition saved_or :: "saved option \<Rightarrow> (saved \<Rightarrow> rat) \<Rightarrow> rat \<Rightarrow> rat" where
  "saved_or sv field d = (case sv of None \<Rightarrow> d | Some s \<Rightarrow> field s)"

text \<open>\<open>main.js\<close>, \<open>createViewportPanel\<close>.\<close>

definition createViewportPanel :: "host \<Rightarrow> manager \<Rightarrow> manager" where
  "createViewportPanel h m =
     (let sv = getSavedState m ''viewport-panel'';
          workspaceRect = workspaceRect h;
          defaultWidth = min 800 (r_width workspaceRect * (1 / 2));
          defaultHeight = min 600 (r_height workspaceRect * (4 / 5));
          defaultX = (r_width workspaceRect - defaultWidth) / 2 - 100;
          defaultY = (r_height workspaceRect - defaultHeight) / 2
      in createPanel m
           \<lparr>c_id = ''viewport-panel'', c_title = ''Scene Viewport'',
            c_x = Some (saved_or sv sv_x defaultX),
            c_y = Some (saved_or sv sv_y defaultY),
            c_width = Some (saved_or sv sv_width defaultWidth),
            c_height = Some (saved_or sv sv_height defaultHeight),
            c_minWidth = Some 400, c_minHeight = Some 300,
            c_resizable = None, c_closable = Some False\<rparr>)"

text \<open>\<open>CodeEditor.js\<close>, \<open>createPanel\<close> (the panel part).\<close>

definition createCodeEditorPanel :: "host \<Rightarrow> manager \<Rightarrow> manager" where
  "createCodeEditorPanel h m =
     (let sv = getSavedState m ''code-editor-panel''
      in createPanel m
           \<lparr>c_id = ''code-editor-panel'', c_title = ''Code Editor'',
            c_x = Some (saved_or sv sv_x (innerWidth h - 500)),
            c_y = Some (saved_or sv sv_y 50),
            c_width = Some (saved_or sv sv_width 480),
            c_height = Some (saved_or sv sv_height 520),
            c_minWidth = Some 380, c_minHeight = Some 300,
            c_resizable = None, c_closable = None\<rparr>)"

text \<open>\<open>VisualProfiler.js\<close>, \<open>createPanel\<close> (the panel part).\<close>

definition createProfilerPanel :: "host \<Rightarrow> manager \<Rightarrow> manager" where
  "createProfilerPanel h m =
     (let sv = getSavedState m ''profiler-panel''
      in createPanel m
           \<lparr>c_id = ''profiler-panel'', c_title = ''Performance'',
            c_x = Some (saved_or sv sv_x (innerWidth h - 280)),
            c_y = Some (saved_or sv sv_y 50),
            c_width = Some (saved_or sv sv_width 260),
            c_height = Some (saved_or sv sv_height 480),
            c_minWidth = Some 220, c_minHeight = Some 300,
            c_resizable = None, c_closable = None\<rparr>)"

subsection \<open>Events\<close>

text \<open>
  What reaches the manager: the public operations, and the pointer events. The listeners
  of \<open>attachPanelEvents\<close> are closures over the element and the id it was created with
  (\<open>panel.id = id\<close>), so a pointer-down names the element it hits. A pointer-down on the
  header runs the header's listener (\<open>startDrag\<close>) and then bubbles to the panel's
  listener (\<open>focusPanel\<close>); one on a resize handle stops propagating; one elsewhere in
  the panel only reaches the panel's listener. Only an attached element receives events,
  and only a resizable panel has handles.
\<close>

datatype event =
    CreatePanel panel_config
  | ClosePanel string
  | ShowPanel string
  | MinimizePanel string
  | ToggleMaximize string
  | FocusPanel string
  | HeaderMouseDown nat mouse
  | PanelMouseDown nat
  | HandleMouseDown nat string mouse
  | MouseMove mouse
  | MouseUp

definition handle_directions :: "string list" where
  "handle_directions = [''n'', ''s'', ''e'', ''w'', ''nw'', ''ne'', ''sw'', ''se'']"

definition receives :: "manager \<Rightarrow> nat \<Rightarrow> bool" where
  "receives m a = (a < nextEl m \<and> attached (elements m a))"

fun step :: "host \<Rightarrow> manager \<Rightarrow> event \<Rightarrow> manager" where
  "step h m (CreatePanel cfg) = createPanel m cfg"
| "step h m (ClosePanel pid) = closePanel h m pid"
| "step h m (ShowPanel pid) = showPanel m pid"
| "step h m (MinimizePanel pid) = minimizePanel m pid"
| "step h m (ToggleMaximize pid) = state_of (toggleMaximize m pid)"
| "step h m (FocusPanel pid) = focusPanel m pid"
| "step h m (HeaderMouseDown a e) =
     (if receives m a
      then focusPanel (startDrag h m e a (eid (elements m a))) (eid (elements m a))
      else m)"
| "step h m (PanelMouseDown a) =
     (if receives m a then focusPanel m (eid (elements m a)) else m)"
| "step h m (HandleMouseDown a direction e) =
     (if receives m a \<and> handles (elements m a) \<and> direction \<in> set handle_directions
      then state_of (startResize h m e a (eid (elements m a)) direction)
      else m)"
| "step h m (MouseMove e) = handleMouseMove h m e"
| "step h m MouseUp = handleMouseUp h m"

fun run :: "host \<Rightarrow> manager \<Rightarrow> event list \<Rightarrow> manager" where
  "run h m [] = m"
| "run h m (ev # evs) = run h (step h m ev) evs"

text \<open>
  A host that renders every panel at its inline style box, in a workspace of the given
  size whose origin is the viewport's. The examples use no number that prints in exponent
  notation; for such a number this host reads \<open>1\<close> or \<open>-1\<close>.
\<close>

definition style_host :: "rat \<Rightarrow> rat \<Rightarrow> host" where
  "style_host w ht =
     \<lparr>workspaceRect = \<lparr>r_left = 0, r_top = 0, r_width = w, r_height = ht\<rparr>,
      getBoundingClientRect =
        (\<lambda>el. \<lparr>r_left = left_px el, r_top = top_px el,
                r_width = width_px el, r_height = height_px el\<rparr>),
      innerWidth = w,
      exponent_digits = (\<lambda>q. if 0 \<le> q then 1 else - 1)\<rparr>"

text \<open>
  A host whose stylesheet draws a maximized panel over the whole workspace, and every
  other panel at its inline style box.
\<close>

definition maximized_fill_host :: "rat \<Rightarrow> rat \<Rightarrow> host" where
  "maximized_fill_host w ht =
     \<lparr>workspaceRect = \<lparr>r_left = 0, r_top = 0, r_width = w, r_height = ht\<rparr>,
      getBoundingClientRect =
        (\<lambda>el. if cl_maximized el
              then \<lparr>r_left = 0, r_top = 0, r_width = w, r_height = ht\<rparr>
              else \<lparr>r_left = left_px el, r_top = top_px el,
                    r_width = width_px el, r_height = height_px el\<rparr>),
      innerWidth = w,
      exponent_digits = (\<lambda>q. if 0 \<le> q then 1 else - 1)\<rparr>"

subsection \<open>The snap rules in the order of the specification\<close>

text \<open>
  The specification's reading of \<open>calculateSnap\<close>: a list of rules, each already decided
  for the candidate rectangle (does it match within the threshold, which position it
  snaps to, where its guide goes), in the order workspace-left, workspace-right,
  workspace-top, workspace-bottom, then for every sibling in registry order its four
  horizontal and its four vertical checks; on each axis the last matching rule wins.
  Siblings are the other panels that are neither hidden nor maximized.
\<close>

datatype axis = AxisX | AxisY

record snap_rule =
  rule_axis :: axis
  rule_matches :: bool
  rule_target :: rat
  rule_guide :: rat

text \<open>The four workspace-edge rules: left, right, top, bottom.\<close>

definition spec_workspace_rules :: "host \<Rightarrow> manager \<Rightarrow> rat \<Rightarrow> rat \<Rightarrow> rat \<Rightarrow> rat \<Rightarrow> snap_rule list" where
  "spec_workspace_rules h m newX newY width height =
     (let wW = r_width (workspaceRect h); wH = r_height (workspaceRect h); t = snapThreshold m in
      [\<lparr>rule_axis = AxisX, rule_matches = (\<bar>newX\<bar> < t), rule_target = 0, rule_guide = 0\<rparr>,
       \<lparr>rule_axis = AxisX, rule_matches = (\<bar>newX + width - wW\<bar> < t),
        rule_target = wW - width, rule_guide = wW\<rparr>,
       \<lparr>rule_axis = AxisY, rule_matches = (\<bar>newY\<bar> < t), rule_target = 0, rule_guide = 0\<rparr>,
       \<lparr>rule_axis = AxisY, rule_matches = (\<bar>newY + height - wH\<bar> < t),
        rule_target = wH - height, rule_guide = wH\<rparr>])"

text \<open>
  The rules of one sibling: left-to-right, right-to-left, left-to-left, right-to-right,
  then top-to-bottom, bottom-to-top, top-to-top, bottom-to-bottom.
\<close>

definition spec_sibling_rules :: "host \<Rightarrow> manager \<Rightarrow> rat \<Rightarrow> rat \<Rightarrow> rat \<Rightarrow> rat \<Rightarrow> element \<Rightarrow> snap_rule list" where
  "spec_sibling_rules h m newX newY width height el =
     (let t = snapThreshold m;
          rect = getBoundingClientRect h el;
          pLeft = r_left rect - r_left (workspaceRect h);
          pTop = r_top rect - r_top (workspaceRect h);
          pRight = pLeft + r_width rect;
          pBottom = pTop + r_height rect in
      [\<lparr>rule_axis = AxisX, rule_matches = (\<bar>newX - pRight\<bar> < t),
        rule_target = pRight, rule_guide = pRight\<rparr>,
       \<lparr>rule_axis = AxisX, rule_matches = (\<bar>newX + width - pLeft\<bar> < t),
        rule_target = pLeft - width, rule_guide = pLeft\<rparr>,
       \<lparr>rule_axis = AxisX, rule_matches = (\<bar>newX - pLeft\<bar> < t),
        rule_target = pLeft, rule_guide = pLeft\<rparr>,
       \<lparr>rule_axis = AxisX, rule_matches = (\<bar>newX + width - pRight\<bar> < t),
        rule_target = pRight - width, rule_guide = pRight\<rparr>,
       \<lparr>rule_axis = AxisY, rule_matches = (\<bar>newY - pBottom\<bar> < t),
        rule_target = pBottom, rule_guide = pBottom\<rparr>,
       \<lparr>rule_axis = AxisY, rule_matches = (\<bar>newY + height - pTop\<bar> < t),
        rule_target = pTop - height, rule_guide = pTop\<rparr>,
       \<lparr>rule_axis = AxisY, rule_matches = (\<bar>newY - pTop\<bar> < t),
        rule_target = pTop, rule_guide = pTop\<rparr>,
       \<lparr>rule_axis = AxisY, rule_matches = (\<bar>newY + height - pBottom\<bar> < t),
        rule_target = pBottom - height, rule_guide = pBottom\<rparr>])"

text \<open>The snap targets: the other panels, in registry order, not hidden and not maximized.\<close>

definition spec_siblings :: "manager \<Rightarrow> string \<Rightarrow> element list" where
  "spec_siblings m panelId =
     filter (\<lambda>el. \<not> cl_hidden el \<and> \<not> cl_maximized el)
       (map (\<lambda>entry. elements m (element (snd entry)))
          (filter (\<lambda>entry. fst entry \<noteq> panelId) (panels m)))"

text \<open>The whole list, in the iteration order the specification gives.\<close>

definition spec_rule_order ::
  "host \<Rightarrow> manager \<Rightarrow> string \<Rightarrow> rat \<Rightarrow> rat \<Rightarrow> rat \<Rightarrow> rat \<Rightarrow> snap_rule list" where
  "spec_rule_order h m panelId newX newY width height =
     spec_workspace_rules h m newX newY width height
     @ concat (map (spec_sibling_rules h m newX newY width height) (spec_siblings m panelId))"

text \<open>The last rule of an axis that matches, if any.\<close>

definition last_match :: "axis \<Rightarrow> snap_rule list \<Rightarrow> snap_rule option" where
  "last_match ax rs =
     (let ms = filter (\<lambda>r. rule_axis r = ax \<and> rule_matches r) rs
      in if ms = [] then None else Some (last ms))"

text \<open>
  The result the specification describes: on each axis the last matching rule gives the
  snapped coordinate and the guide position; with no match the candidate's coordinate
  stays, no guide is shown and the guide position is \<open>0\<close>.
\<close>

definition spec_last_match_wins :: "rat \<Rightarrow> rat \<Rightarrow> snap_rule list \<Rightarrow> snap" where
  "spec_last_match_wins newX newY rs =
     \<lparr>snapX = (case last_match AxisX rs of None \<Rightarrow> newX | Some r \<Rightarrow> rule_target r),
      snapY = (case last_match AxisY rs of None \<Rightarrow> newY | Some r \<Rightarrow> rule_target r),
      snappedV = (last_match AxisX rs \<noteq> None),
      snappedH = (last_match AxisY rs \<noteq> None),
      snapPosV = (case last_match AxisX rs of None \<Rightarrow> 0 | Some r \<Rightarrow> rule_guide r),
      snapPosH = (case last_match AxisY rs of None \<Rightarrow> 0 | Some r \<Rightarrow> rule_guide r)\<rparr>"

text \<open>
  One rule applied to the running result, as one \<open>if\<close> of the source does, and the
  effect of a list of rules on a running result in closed form (used to compare the two
  readings).
\<close>

definition apply_rule :: "snap_rule \<Rightarrow> snap \<Rightarrow> snap" where
  "apply_rule r s =
     (if rule_matches r then
        (case rule_axis r of
           AxisX \<Rightarrow> s\<lparr>snapX := rule_target r, snappedV := True, snapPosV := rule_guide r\<rparr>
         | AxisY \<Rightarrow> s\<lparr>snapY := rule_target r, snappedH := True, snapPosH := rule_guide r\<rparr>)
      else s)"

definition over :: "snap_rule list \<Rightarrow> snap \<Rightarrow> snap" where
  "over rs s =
     \<lparr>snapX = (case last_match AxisX rs of None \<Rightarrow> snapX s | Some r \<Rightarrow> rule_target r),
      snapY = (case last_match AxisY rs of None \<Rightarrow> snapY s | Some r \<Rightarrow> rule_target r),
      snappedV = (last_match AxisX rs \<noteq> None \<or> snappedV s),
      snappedH = (last_match AxisY rs \<noteq> None \<or> snappedH s),
      snapPosV = (case last_match AxisX rs of None \<Rightarrow> snapPosV s | Some r \<Rightarrow> rule_guide r),
      snapPosH = (case last_match AxisY rs of None \<Rightarrow> snapPosH s | Some r \<Rightarrow> rule_guide r)\<rparr>"

subsection \<open>Invariants of the reachable states\<close>

text \<open>A maximized panel has saved bounds.\<close>

definition maximized_has_bounds :: "manager \<Rightarrow> bool" where
  "maximized_has_bounds m =
     list_all (\<lambda>entry. maximized (state (snd entry)) \<longrightarrow> prevBounds (state (snd entry)) \<noteq> None)
       (panels m)"

text \<open>
  The panel with the given id, if there is one, is not maximized and has no saved bounds
  (as a panel is whose id \<open>toggleMaximize\<close> has never been called with).
\<close>

definition never_maximized :: "string \<Rightarrow> manager \<Rightarrow> bool" where
  "never_maximized pid m =
     (case map_of (panels m) pid of
        None \<Rightarrow> True
      | Some panelData \<Rightarrow>
          \<not> maximized (state panelData) \<and> prevBounds (state panelData) = None)"

text \<open>
  An entry of the registry is well formed when its element has been allocated, carries
  the entry's key as its id, and has a \<open>zIndex\<close> (if any) no greater than \<open>topZIndex\<close>.
  The registry is well formed when its keys are distinct, its entries are well formed,
  and a resize session refers to an allocated element.
\<close>

definition entry_wf :: "manager \<Rightarrow> string \<times> panelData \<Rightarrow> bool" where
  "entry_wf m entry =
     (element (snd entry) < nextEl m
      \<and> eid (elements m (element (snd entry))) = fst entry
      \<and> (case zIndex (elements m (element (snd entry))) of
            None \<Rightarrow> True
          | Some z \<Rightarrow> z \<le> topZIndex m))"

definition registry_wf :: "manager \<Rightarrow> bool" where
  "registry_wf m =
     (distinct (map fst (panels m))
      \<and> list_all (entry_wf m) (panels m)
      \<and> (case resizeState m of None \<Rightarrow> True | Some rs \<Rightarrow> resize_panel rs < nextEl m))"

text \<open>The dimensions a resize handle changes: \<open>e\<close> and \<open>w\<close> the width, \<open>s\<close> and \<open>n\<close> the height.\<close>

definition touches_width :: "string \<Rightarrow> bool" where
  "touches_width direction =
     (str_includes direction CHR ''e'' \<or> str_includes direction CHR ''w'')"

definition touches_height :: "string \<Rightarrow> bool" where
  "touches_height direction =
     (str_includes direction CHR ''s'' \<or> str_includes direction CHR ''n'')"

text \<open>
  The minimum size of an entry: its element's inline width and height are at least the
  configured minimum, so are the saved bounds (if any), and a resize session on its
  element has recorded the entry's minimum and, in each dimension its handle does not
  change, a start size that is at least as large.
\<close>

definition entry_min_size :: "manager \<Rightarrow> string \<times> panelData \<Rightarrow> bool" where
  "entry_min_size m entry =
     (minWidth (config (snd entry)) \<le> width_px (elements m (element (snd entry)))
      \<and> minHeight (config (snd entry)) \<le> height_px (elements m (element (snd entry)))
      \<and> (case prevBounds (state (snd entry)) of
            None \<Rightarrow> True
          | Some b \<Rightarrow> minWidth (config (snd entry)) \<le> pb_width b
                     \<and> minHeight (config (snd entry)) \<le> pb_height b)
      \<and> (case resizeState m of
            None \<Rightarrow> True
          | Some rs \<Rightarrow>
              resize_panel rs = element (snd entry) \<longrightarrow>
                resize_minWidth rs = minWidth (config (snd entry))
                \<and> resize_minHeight rs = minHeight (config (snd entry))
                \<and> (touches_width (resize_direction rs)
                     \<or> minWidth (config (snd entry)) \<le> resize_startWidth rs)
                \<and> (touches_height (resize_direction rs)
                     \<or> minHeight (config (snd entry)) \<le> resize_startHeight rs)))"

definition min_size_inv :: "manager \<Rightarrow> bool" where
  "min_size_inv m = list_all (entry_min_size m) (panels m)"

text \<open>
  A pointer-down on a resize handle that starts a session on the element of a registry
  panel finds the panel rendered, in each dimension the handle does not change, at least
  as large as the panel's minimum. The rectangle is the one \<open>startResize\<close> reads, after
  its call of \<open>focusPanel\<close>.
\<close>

definition resize_start_keeps_min :: "host \<Rightarrow> manager \<Rightarrow> nat \<Rightarrow> string \<Rightarrow> bool" where
  "resize_start_keeps_min h m a direction =
     (receives m a \<and> handles (elements m a) \<and> direction \<in> set handle_directions \<longrightarrow>
        (case map_of (panels m) (eid (elements m a)) of
           None \<Rightarrow> True
         | Some panelData \<Rightarrow>
             element panelData = a \<longrightarrow>
               (let rect = getBoundingClientRect h
                             (elements (focusPanel m (eid (elements m a))) a)
                in (touches_width direction \<or> minWidth (config panelData) \<le> r_width rect)
                 \<and> (touches_height direction
                      \<or> minHeight (config panelData) \<le> r_height rect))))"

text \<open>
  What the minimum size asks of an event in a state: a \<open>createPanel\<close> call is given a
  width and height (after the defaults) that are at least its minimum width and height;
  a pointer-down on a resize handle is as above; any other event is free.
\<close>

fun event_keeps_min :: "host \<Rightarrow> manager \<Rightarrow> event \<Rightarrow> bool" where
  "event_keeps_min h m (CreatePanel cfg) =
     (default_to 200 (c_minWidth cfg) \<le> default_to 300 (c_width cfg)
      \<and> default_to 150 (c_minHeight cfg) \<le> default_to 400 (c_height cfg))"
| "event_keeps_min h m (HandleMouseDown a direction e) = resize_start_keeps_min h m a direction"
| "event_keeps_min h m ev = True"

text \<open>Every event of a run meets this in the state it arrives in.\<close>

fun keeps_min_run :: "host \<Rightarrow> manager \<Rightarrow> event list \<Rightarrow> bool" where
  "keeps_min_run h m [] = True"
| "keeps_min_run h m (ev # evs) = (event_keeps_min h m ev \<and> keeps_min_run h (step h m ev) evs)"

text \<open>
  Two conditions that do not look at the states of a run and together are enough for it
  (\<open>keeps_min_run_of_host\<close>): the host renders every element at least as large as its
  inline width and height, and every \<open>createPanel\<close> call is given at least its minimum.
\<close>

definition renders_at_least_style_size :: "host \<Rightarrow> bool" where
  "renders_at_least_style_size h =
     (\<forall>el. width_px el \<le> r_width (getBoundingClientRect h el)
         \<and> height_px el \<le> r_height (getBoundingClientRect h el))"

fun creates_at_least_min :: "event \<Rightarrow> bool" where
  "creates_at_least_min (CreatePanel cfg) =
     (default_to 200 (c_minWidth cfg) \<le> default_to 300 (c_width cfg)
      \<and> default_to 150 (c_minHeight cfg) \<le> default_to 400 (c_height cfg))"
| "creates_at_least_min ev = True"

subsection \<open>Example inputs\<close>

text \<open>Scenario 3: a panel at \<open>(100,100,300,200)\<close> with \<open>minWidth = 200\<close>.\<close>

definition scenario3_config :: panel_config where
  "scenario3_config =
     \<lparr>c_id = ''p1'', c_title = ''Panel'', c_x = Some 100, c_y = Some 100,
      c_width = Some 300, c_height = Some 200, c_minWidth = Some 200, c_minHeight = None,
      c_resizable = None, c_closable = None\<rparr>"

text \<open>The panel of scenario 3, with a resize session on its \<open>w\<close> handle begun at \<open>clientX = 100\<close>.\<close>

definition scenario3_resizing :: manager where
  "scenario3_resizing =
     run (style_host 1000 800) (constructor None)
       [CreatePanel scenario3_config,
        HandleMouseDown 0 ''w'' \<lparr>clientX = 100, clientY = 150\<rparr>]"

text \<open>The panel of scenario 3, focused by a call of \<open>focusPanel\<close>.\<close>

definition scenario3_focused :: manager where
  "scenario3_focused =
     run (style_host 1000 800) (constructor None)
       [CreatePanel scenario3_config, FocusPanel ''p1'']"

text \<open>
  A panel \<open>a\<close> whose left edge is at \<open>15\<close>; the candidate rectangle of another panel at
  \<open>x = 5\<close> is \<open>5\<close> away from the workspace's left edge and \<open>10\<close> away from \<open>a\<close>'s left edge.
\<close>

definition snap_example :: manager where
  "snap_example =
     run (style_host 1000 800) (constructor None)
       [CreatePanel \<lparr>c_id = ''a'', c_title = ''A'', c_x = Some 15, c_y = Some 300,
          c_width = Some 200, c_height = Some 100, c_minWidth = None, c_minHeight = None,
          c_resizable = None, c_closable = None\<rparr>]"

text \<open>The panel of scenario 3, just created.\<close>

definition scenario3_created :: manager where
  "scenario3_created = run (style_host 1000 800) (constructor None) [CreatePanel scenario3_config]"

text \<open>
  The panel of scenario 3 is maximized, then dragged by its header by \<open>(50, 50)\<close> and
  released.
\<close>

definition dragged_while_maximized :: manager where
  "dragged_while_maximized =
     run (style_host 1000 800) (constructor None)
       [CreatePanel scenario3_config, ToggleMaximize ''p1'',
        HeaderMouseDown 0 \<lparr>clientX = 150, clientY = 110\<rparr>,
        MouseMove \<lparr>clientX = 200, clientY = 160\<rparr>, MouseUp]"



text \<open>A fresh engine that finds a persisted entry for \<open>p1\<close>, and a config that only names \<open>p1\<close>.\<close>

definition persisted_p1 :: manager where
  "persisted_p1 =
     constructor
       (Some (Json [(''p1'', \<lparr>sv_x = 5, sv_y = 6, sv_width = 310, sv_height = 410,
                              sv_minimized = False, sv_maximized = False\<rparr>)]))"

definition bare_p1 :: panel_config where
  "bare_p1 =
     \<lparr>c_id = ''p1'', c_title = ''Panel'', c_x = None, c_y = None, c_width = None,
      c_height = None, c_minWidth = None, c_minHeight = None, c_resizable = None,
      c_closable = None\<rparr>"

text \<open>A fresh engine that finds persisted entries for the three panels of the application.\<close>

definition persisted_layout :: manager where
  "persisted_layout =
     constructor
       (Some (Json
          [(''viewport-panel'', \<lparr>sv_x = 5, sv_y = 6, sv_width = 910, sv_height = 610,
                                   sv_minimized = False, sv_maximized = False\<rparr>),
           (''code-editor-panel'', \<lparr>sv_x = 7, sv_y = 8, sv_width = 490, sv_height = 530,
                                   sv_minimized = False, sv_maximized = False\<rparr>),
           (''profiler-panel'', \<lparr>sv_x = 9, sv_y = 10, sv_width = 270, sv_height = 470,
                                   sv_minimized = True, sv_maximized = False\<rparr>)]))"

text \<open>A config whose width and height are below the default minimum \<open>200 \<times> 150\<close>.\<close>

definition undersized_config :: panel_config where
  "undersized_config =
     \<lparr>c_id = ''p1'', c_title = ''Panel'', c_x = None, c_y = None, c_width = Some 50,
      c_height = Some 40, c_minWidth = None, c_minHeight = None, c_resizable = None,
      c_closable = None\<rparr>"

text \<open>
  The panel of scenario 3 (\<open>300 \<times> 200\<close>, minimum \<open>200 \<times> 150\<close>) is maximized and then
  resized by its \<open>s\<close> handle, the pointer moving down by \<open>10\<close>.
\<close>

definition maximized_south_resize :: "event list" where
  "maximized_south_resize =
     [CreatePanel scenario3_config, ToggleMaximize ''p1'',
      HandleMouseDown 0 ''s'' \<lparr>clientX = 75, clientY = 790\<rparr>,
      MouseMove \<lparr>clientX = 75, clientY = 800\<rparr>]"

text \<open>Two panels, the second one focused.\<close>

definition two_panels :: manager where
  "two_panels =
     run (style_host 1000 800) (constructor None)
       [CreatePanel scenario3_config,
        CreatePanel \<lparr>c_id = ''p2'', c_title = ''Other'', c_x = Some 500, c_y = Some 100,
          c_width = None, c_height = None, c_minWidth = None, c_minHeight = None,
          c_resizable = None, c_closable = None\<rparr>,
        FocusPanel ''p2'']"



section \<open>Properties\<close>

lemmas op_defs =
  createPanel_def focusPanel_def clear_focus_def upd_el_def upd_state_def
  minimizePanel_def toggleMaximize_def showPanel_def closePanel_def
  savePanelStates_def loadPanelStates_def getSavedState_def
  startDrag_def startResize_def handleDrag_def handleResize_def
  handleMouseMove_def handleMouseUp_def
  calculateSnap_def snap_to_panel_def showSnapGuide_def hideSnapGuides_def

lemmas eval_defs =
  op_defs constructor_def no_element_def default_to_def saved_or_def parseInt_def
  plain_decimal_def truncate_toward_zero_def
  str_includes_def receives_def handle_directions_def style_host_def Let_def

subsection \<open>Resizing from the west handle\<close>

text \<open>
  Claim C3. Scenario 3: the panel starts at \<open>(100,100,300,200)\<close> with \<open>minWidth = 200\<close> and
  is resized by its \<open>w\<close> handle. With \<open>dx = -50\<close> the code gives \<open>width = 350\<close>,
  \<open>left = 50\<close>, as the claim says. With \<open>dx = +150\<close> the width clamps to \<open>200\<close>, but
  \<open>left\<close> is put back to the start value \<open>100\<close>: the east edge, at \<open>400\<close> until then, is
  now at \<open>300\<close>. The claim has \<open>left\<close> stay where the width was last at least the
  minimum, so that the east edge does not move.
\<close>

theorem scenario3_west_resize:
  "(let m1 = step (style_host 1000 800) scenario3_resizing
               (MouseMove \<lparr>clientX = 50, clientY = 150\<rparr>);
        m2 = step (style_host 1000 800) m1 (MouseMove \<lparr>clientX = 250, clientY = 150\<rparr>);
        p0 = elements scenario3_resizing 0; p1 = elements m1 0; p2 = elements m2 0
    in (left_px p0, width_px p0, left_px p0 + width_px p0) = (100, 300, 400)
     \<and> (left_px p1, width_px p1, left_px p1 + width_px p1) = (50, 350, 400)
     \<and> (left_px p2, width_px p2, left_px p2 + width_px p2) = (100, 200, 300))"
  unfolding scenario3_resizing_def scenario3_config_def
  by (simp add: eval_defs)

subsection \<open>Operations on an unknown id\<close>

lemma closePanel_unknown: "map_of (panels m) pid = None \<Longrightarrow> closePanel h m pid = m"
  by (simp add: closePanel_def)

lemma toggleMaximize_unknown:
  "map_of (panels m) pid = None \<Longrightarrow> toggleMaximize m pid = Returned m"
  by (simp add: toggleMaximize_def)

lemma minimizePanel_unknown: "map_of (panels m) pid = None \<Longrightarrow> minimizePanel m pid = m"
  by (simp add: minimizePanel_def)

lemma showPanel_unknown: "map_of (panels m) pid = None \<Longrightarrow> showPanel m pid = m"
  by (simp add: showPanel_def)

lemma focusPanel_unknown:
  "map_of (panels m) pid = None \<Longrightarrow>
     focusPanel m pid = m\<lparr>elements := clear_focus (panels m) (elements m)\<rparr>"
  by (simp add: focusPanel_def)

text \<open>
  Claim C4. An operation on an unknown id leaves the whole state as it is. The code does
  so in \<open>closePanel\<close>, \<open>toggleMaximize\<close>, \<open>minimizePanel\<close> and \<open>showPanel\<close>, which look
  the id up first. \<open>focusPanel\<close> removes the class \<open>focused\<close> from every panel before it
  looks the id up: on the unknown id \<open>ghost\<close> the focused panel \<open>p1\<close> loses its focus,
  while \<open>activePanel\<close> still names it.
\<close>

theorem focusPanel_unknown_id_clears_focus:
  "map_of (panels scenario3_focused) ''ghost'' = None
   \<and> cl_focused (elements scenario3_focused 0)
   \<and> \<not> cl_focused (elements (focusPanel scenario3_focused ''ghost'') 0)
   \<and> activePanel (focusPanel scenario3_focused ''ghost'') = Some ''p1''
   \<and> focusPanel scenario3_focused ''ghost'' \<noteq> scenario3_focused"
proof -
  have a: "map_of (panels scenario3_focused) ''ghost'' = None"
    unfolding scenario3_focused_def scenario3_config_def by (simp add: eval_defs)
  have b: "cl_focused (elements scenario3_focused 0)"
    unfolding scenario3_focused_def scenario3_config_def by (simp add: eval_defs)
  have c: "\<not> cl_focused (elements (focusPanel scenario3_focused ''ghost'') 0)"
    unfolding scenario3_focused_def scenario3_config_def by (simp add: eval_defs)
  have d: "activePanel (focusPanel scenario3_focused ''ghost'') = Some ''p1''"
    unfolding scenario3_focused_def scenario3_config_def by (simp add: eval_defs)
  from b c have "focusPanel scenario3_focused ''ghost'' \<noteq> scenario3_focused"
    by auto
  with a b c d show ?thesis by simp
qed

subsection \<open>Snapping: the last matching rule wins\<close>

lemma last_match_Nil: "last_match ax [] = None"
  by (simp add: last_match_def)

lemma last_match_snoc:
  "last_match ax (rs @ [r]) =
     (if rule_axis r = ax \<and> rule_matches r then Some r else last_match ax rs)"
  by (simp add: last_match_def)

lemma fold_apply_rule: "fold apply_rule rs s = over rs s"
proof (induction rs rule: rev_induct)
  case Nil
  show ?case by (simp add: over_def last_match_Nil)
next
  case (snoc r rs)
  show ?case
  proof (cases "rule_matches r")
    case False
    then show ?thesis using snoc by (simp add: apply_rule_def over_def last_match_snoc)
  next
    case True
    then show ?thesis using snoc
      by (cases "rule_axis r") (simp_all add: apply_rule_def over_def last_match_snoc)
  qed
qed

lemma apply_rule_X:
  "apply_rule \<lparr>rule_axis = AxisX, rule_matches = c, rule_target = t, rule_guide = g\<rparr> s =
     (if c then s\<lparr>snapX := t, snappedV := True, snapPosV := g\<rparr> else s)"
  by (simp add: apply_rule_def)

lemma apply_rule_Y:
  "apply_rule \<lparr>rule_axis = AxisY, rule_matches = c, rule_target = t, rule_guide = g\<rparr> s =
     (if c then s\<lparr>snapY := t, snappedH := True, snapPosH := g\<rparr> else s)"
  by (simp add: apply_rule_def)

lemma snap_to_panel_skip:
  "fst entry = panelId \<or> cl_hidden (elements m (element (snd entry)))
     \<or> cl_maximized (elements m (element (snd entry))) \<Longrightarrow>
   snap_to_panel h m panelId newX newY width height entry s = s"
  unfolding snap_to_panel_def by (cases "fst entry = panelId") (simp_all add: Let_def)

lemma snap_to_panel_rules:
  "fst entry \<noteq> panelId \<Longrightarrow> \<not> cl_hidden (elements m (element (snd entry))) \<Longrightarrow>
   \<not> cl_maximized (elements m (element (snd entry))) \<Longrightarrow>
   snap_to_panel h m panelId newX newY width height entry s =
     fold apply_rule
       (spec_sibling_rules h m newX newY width height (elements m (element (snd entry)))) s"
  unfolding snap_to_panel_def spec_sibling_rules_def
  by (simp only: Let_def fold_simps o_apply apply_rule_X apply_rule_Y if_False simp_thms)

lemma fold_snap_to_panel:
  "fold (snap_to_panel h m panelId newX newY width height) ps s =
     fold apply_rule
       (concat (map (spec_sibling_rules h m newX newY width height)
          (filter (\<lambda>el. \<not> cl_hidden el \<and> \<not> cl_maximized el)
             (map (\<lambda>entry. elements m (element (snd entry)))
                (filter (\<lambda>entry. fst entry \<noteq> panelId) ps))))) s"
proof (induction ps arbitrary: s)
  case Nil
  show ?case by simp
next
  case (Cons entry ps)
  have step: "fold (snap_to_panel h m panelId newX newY width height) (entry # ps) s =
      fold (snap_to_panel h m panelId newX newY width height) ps
        (snap_to_panel h m panelId newX newY width height entry s)"
    by simp
  show ?case
  proof (cases "fst entry = panelId \<or> cl_hidden (elements m (element (snd entry)))
     \<or> cl_maximized (elements m (element (snd entry)))")
    case True
    then have "snap_to_panel h m panelId newX newY width height entry s = s"
      by (rule snap_to_panel_skip)
    with True show ?thesis unfolding step Cons.IH by auto
  next
    case False
    then have "snap_to_panel h m panelId newX newY width height entry s =
      fold apply_rule
       (spec_sibling_rules h m newX newY width height (elements m (element (snd entry)))) s"
      by (simp add: snap_to_panel_rules)
    with False show ?thesis unfolding step Cons.IH by simp
  qed
qed

lemma workspace_pass_rules:
  "calculateSnap h m panelId newX newY width height =
     fold apply_rule (spec_rule_order h m panelId newX newY width height)
       \<lparr>snapX = newX, snapY = newY, snappedV = False, snappedH = False,
        snapPosV = 0, snapPosH = 0\<rparr>"
  unfolding calculateSnap_def spec_rule_order_def spec_siblings_def fold_snap_to_panel
      spec_workspace_rules_def
  by (simp only: Let_def fold_simps fold_append o_apply apply_rule_X apply_rule_Y)

text \<open>
  Claim C5. \<open>calculateSnap\<close> returns, on each axis, what the last matching rule of the
  specification's order gives (the candidate's own coordinate when no rule matches):
  a later match overwrites an earlier one, whichever is nearer.
\<close>

theorem calculateSnap_last_match_wins:
  "calculateSnap h m panelId newX newY width height =
     spec_last_match_wins newX newY (spec_rule_order h m panelId newX newY width height)"
  by (simp add: workspace_pass_rules fold_apply_rule over_def spec_last_match_wins_def
      split: option.splits)

text \<open>
  At the example the workspace's left edge (distance \<open>5\<close>) and the sibling's left edge
  (distance \<open>10\<close>) both match; the sibling's rule comes later and the result is \<open>15\<close>.
\<close>

theorem calculateSnap_last_match_wins_example:
  "calculateSnap (style_host 1000 800) snap_example ''b'' 5 500 100 100 =
     spec_last_match_wins 5 500 (spec_rule_order (style_host 1000 800) snap_example ''b'' 5 500 100 100)
   \<and> snapX (calculateSnap (style_host 1000 800) snap_example ''b'' 5 500 100 100) = 15
   \<and> snapY (calculateSnap (style_host 1000 800) snap_example ''b'' 5 500 100 100) = 500
   \<and> map rule_matches
         (spec_rule_order (style_host 1000 800) snap_example ''b'' 5 500 100 100) =
       [True, False, False, False, False, False, True, False, False, False, False, False]"
proof -
  have "snapX (spec_last_match_wins 5 500
          (spec_rule_order (style_host 1000 800) snap_example ''b'' 5 500 100 100)) = 15"
    unfolding snap_example_def
    by (simp add: eval_defs spec_last_match_wins_def last_match_def spec_rule_order_def
        spec_siblings_def spec_workspace_rules_def spec_sibling_rules_def)
  moreover have "snapY (spec_last_match_wins 5 500
          (spec_rule_order (style_host 1000 800) snap_example ''b'' 5 500 100 100)) = 500"
    unfolding snap_example_def
    by (simp add: eval_defs spec_last_match_wins_def last_match_def spec_rule_order_def
        spec_siblings_def spec_workspace_rules_def spec_sibling_rules_def)
  moreover have "map rule_matches
         (spec_rule_order (style_host 1000 800) snap_example ''b'' 5 500 100 100) =
       [True, False, False, False, False, False, True, False, False, False, False, False]"
    unfolding snap_example_def
    by (simp add: eval_defs spec_rule_order_def
        spec_siblings_def spec_workspace_rules_def spec_sibling_rules_def)
  ultimately show ?thesis
    using calculateSnap_last_match_wins
      [of "style_host 1000 800" snap_example "''b''" 5 500 100 100]
    by simp
qed

subsection \<open>Maximize and restore\<close>

text \<open>
  Claim C6 (amended). For a panel that is not maximized, or that is maximized with its
  geometry still equal to the saved \<open>prevBounds\<close>, two calls of \<open>toggleMaximize\<close> in
  succession both return and leave the panel's geometry exactly as it was (and the
  panel maximized or not as it was).
\<close>

theorem toggleMaximize_twice_restores:
  assumes "map_of (panels m) pid = Some pd"
    and "maximized (state pd) \<Longrightarrow>
           prevBounds (state pd) = Some (style_bounds (elements m (element pd)))"
  shows "\<exists>m1 m2. toggleMaximize m pid = Returned m1 \<and> toggleMaximize m1 pid = Returned m2
           \<and> style_bounds (elements m2 (element pd)) = style_bounds (elements m (element pd))
           \<and> map_option element (map_of (panels m2) pid) = Some (element pd)
           \<and> map_option (\<lambda>d. maximized (state d)) (map_of (panels m2) pid)
               = Some (maximized (state pd))"
proof (cases "maximized (state pd)")
  case True
  with assms show ?thesis
    by (simp add: toggleMaximize_def upd_el_def upd_state_def update_conv' style_bounds_def
        Let_def)
next
  case False
  with assms show ?thesis
    by (simp add: toggleMaximize_def upd_el_def upd_state_def update_conv' style_bounds_def
        Let_def)
qed

theorem toggleMaximize_twice_restores_witness:
  "map_of (panels scenario3_created) ''p1'' =
     Some \<lparr>element = 0,
           config = \<lparr>cid = ''p1'', title = ''Panel'', minWidth = 200, minHeight = 150,
                      resizable = True, closable = True\<rparr>,
           state = \<lparr>minimized = False, maximized = False, prevBounds = None\<rparr>\<rparr>
   \<and> (\<exists>m1 m2. toggleMaximize scenario3_created ''p1'' = Returned m1
          \<and> toggleMaximize m1 ''p1'' = Returned m2
          \<and> style_bounds (elements m2 0) =
              \<lparr>pb_left = 100, pb_top = 100, pb_width = 300, pb_height = 200\<rparr>)"
proof -
  let ?pd = "\<lparr>element = 0,
           config = \<lparr>cid = ''p1'', title = ''Panel'', minWidth = 200, minHeight = 150,
                      resizable = True, closable = True\<rparr>,
           state = \<lparr>minimized = False, maximized = False, prevBounds = None\<rparr>\<rparr>"
  have h1: "map_of (panels scenario3_created) ''p1'' = Some ?pd"
    unfolding scenario3_created_def scenario3_config_def by (simp add: eval_defs)
  have h2: "maximized (state ?pd) \<Longrightarrow>
      prevBounds (state ?pd) = Some (style_bounds (elements scenario3_created (element ?pd)))"
    by simp
  have h3: "style_bounds (elements scenario3_created 0) =
      \<lparr>pb_left = 100, pb_top = 100, pb_width = 300, pb_height = 200\<rparr>"
    unfolding scenario3_created_def scenario3_config_def
    by (simp add: eval_defs style_bounds_def)
  from toggleMaximize_twice_restores [OF h1 h2] h1 h3 show ?thesis by auto
qed

text \<open>
  The claim as stated fails for a panel whose geometry changed while it was maximized:
  maximize does not touch the inline style and a header drag is not refused on a
  maximized panel, so the first call restores the older rectangle.
\<close>

theorem toggleMaximize_twice_counterexample:
  "style_bounds (elements dragged_while_maximized 0) =
     \<lparr>pb_left = 150, pb_top = 150, pb_width = 300, pb_height = 200\<rparr>
   \<and> style_bounds
       (elements
          (state_of (toggleMaximize (state_of (toggleMaximize dragged_while_maximized ''p1''))
             ''p1'')) 0) =
     \<lparr>pb_left = 100, pb_top = 100, pb_width = 300, pb_height = 200\<rparr>
   \<and> style_bounds
       (elements
          (state_of (toggleMaximize (state_of (toggleMaximize dragged_while_maximized ''p1''))
             ''p1'')) 0) \<noteq>
     style_bounds (elements dragged_while_maximized 0)"
  unfolding dragged_while_maximized_def scenario3_config_def
  by (simp add: eval_defs style_bounds_def)

subsection \<open>Drag and resize sessions\<close>





subsection \<open>Persistence\<close>








lemma loadPanelStates_live:
  "panels (loadPanelStates m) = panels m \<and> elements (loadPanelStates m) = elements m"
  by (simp add: loadPanelStates_def split: option.splits stored.splits)

text \<open>
  No operation reads \<open>savedStates\<close>: an event does the same to a manager whatever was
  loaded.
\<close>

lemma focusPanel_savedStates:
  "focusPanel (m\<lparr>savedStates := s\<rparr>) pid = (focusPanel m pid)\<lparr>savedStates := s\<rparr>"
  by (simp add: focusPanel_def upd_el_def Let_def split: option.splits)

lemma snap_to_panel_savedStates:
  "snap_to_panel h (m\<lparr>savedStates := s\<rparr>) = snap_to_panel h m"
proof -
  have e: "elements (m\<lparr>savedStates := s\<rparr>) = elements m" by simp
  have t: "snapThreshold (m\<lparr>savedStates := s\<rparr>) = snapThreshold m" by simp
  show ?thesis unfolding snap_to_panel_def e t ..
qed

lemma calculateSnap_savedStates:
  "calculateSnap h (m\<lparr>savedStates := s\<rparr>) = calculateSnap h m"
  unfolding calculateSnap_def snap_to_panel_savedStates by simp

lemma savePanelStates_savedStates:
  "savePanelStates h (m\<lparr>savedStates := s\<rparr>) = (savePanelStates h m)\<lparr>savedStates := s\<rparr>"
  by (simp add: savePanelStates_def Let_def)

lemma createPanel_savedStates:
  "createPanel (m\<lparr>savedStates := s\<rparr>) cfg = (createPanel m cfg)\<lparr>savedStates := s\<rparr>"
  by (simp add: createPanel_def Let_def)

lemma closePanel_savedStates:
  "closePanel h (m\<lparr>savedStates := s\<rparr>) pid = (closePanel h m pid)\<lparr>savedStates := s\<rparr>"
  by (simp add: closePanel_def upd_el_def savePanelStates_def Let_def split: option.splits)

lemma showPanel_savedStates:
  "showPanel (m\<lparr>savedStates := s\<rparr>) pid = (showPanel m pid)\<lparr>savedStates := s\<rparr>"
  by (simp add: showPanel_def upd_el_def upd_state_def focusPanel_def Let_def
      split: option.splits)

lemma minimizePanel_savedStates:
  "minimizePanel (m\<lparr>savedStates := s\<rparr>) pid = (minimizePanel m pid)\<lparr>savedStates := s\<rparr>"
  by (simp add: minimizePanel_def upd_el_def upd_state_def split: option.splits)

lemma toggleMaximize_savedStates:
  "state_of (toggleMaximize (m\<lparr>savedStates := s\<rparr>) pid) =
     (state_of (toggleMaximize m pid))\<lparr>savedStates := s\<rparr>"
  by (simp add: toggleMaximize_def upd_el_def upd_state_def Let_def split: option.splits)

lemma startDrag_savedStates:
  "startDrag h (m\<lparr>savedStates := s\<rparr>) e a pid = (startDrag h m e a pid)\<lparr>savedStates := s\<rparr>"
  by (simp add: startDrag_def focusPanel_savedStates upd_el_def Let_def)

lemma startResize_savedStates:
  "state_of (startResize h (m\<lparr>savedStates := s\<rparr>) e a pid d) =
     (state_of (startResize h m e a pid d))\<lparr>savedStates := s\<rparr>"
  by (simp add: startResize_def focusPanel_savedStates upd_el_def Let_def split: option.splits)

lemma handleDrag_savedStates:
  "handleDrag h (m\<lparr>savedStates := s\<rparr>) ds e = (handleDrag h m ds e)\<lparr>savedStates := s\<rparr>"
  by (simp add: handleDrag_def calculateSnap_savedStates showSnapGuide_def upd_el_def Let_def)

lemma handleResize_savedStates:
  "handleResize (m\<lparr>savedStates := s\<rparr>) rs e = (handleResize m rs e)\<lparr>savedStates := s\<rparr>"
  by (simp add: handleResize_def upd_el_def Let_def split del: if_split)

lemma handleMouseMove_savedStates:
  "handleMouseMove h (m\<lparr>savedStates := s\<rparr>) e = (handleMouseMove h m e)\<lparr>savedStates := s\<rparr>"
  by (simp add: handleMouseMove_def handleDrag_savedStates handleResize_savedStates
      split: option.splits)

lemma handleMouseUp_savedStates:
  "handleMouseUp h (m\<lparr>savedStates := s\<rparr>) = (handleMouseUp h m)\<lparr>savedStates := s\<rparr>"
  by (simp add: handleMouseUp_def savePanelStates_def hideSnapGuides_def upd_el_def Let_def
      split: option.splits)

lemma step_savedStates:
  "step h (m\<lparr>savedStates := s\<rparr>) ev = (step h m ev)\<lparr>savedStates := s\<rparr>"
  by (cases ev)
    (simp_all add: createPanel_savedStates closePanel_savedStates showPanel_savedStates
      minimizePanel_savedStates toggleMaximize_savedStates focusPanel_savedStates
      startDrag_savedStates startResize_savedStates handleMouseMove_savedStates
      handleMouseUp_savedStates receives_def)

text \<open>
  Claim C9 (amended). \<open>createPanel\<close> never reads the persisted state: the new panel's
  geometry is the config's \<open>x\<close>, \<open>y\<close>, \<open>width\<close>, \<open>height\<close>, each replaced by the hard
  default (\<open>100\<close>, \<open>100\<close>, \<open>300\<close>, \<open>400\<close>) where the caller leaves it out. The persisted
  values become the initial geometry through the callers: the viewport, code editor and
  profiler each pass \<open>saved?.x ?? default\<close> (and likewise \<open>y\<close>, \<open>width\<close>, \<open>height\<close>), so
  with a persisted entry for their id the panel is created at the persisted rectangle.
  Loading the persisted state changes no live panel, and what was loaded has no
  influence on what any later event does to the panels.
\<close>

theorem persisted_geometry_through_callers:
  "style_bounds (elements (createPanel m cfg) (nextEl m)) =
     \<lparr>pb_left = default_to 100 (c_x cfg), pb_top = default_to 100 (c_y cfg),
      pb_width = default_to 300 (c_width cfg), pb_height = default_to 400 (c_height cfg)\<rparr>
   \<and> map_option element (map_of (panels (createPanel m cfg)) (c_id cfg)) = Some (nextEl m)
   \<and> (getSavedState m ''viewport-panel'' = Some sva \<longrightarrow>
        style_bounds (elements (createViewportPanel h m) (nextEl m)) =
          \<lparr>pb_left = sv_x sva, pb_top = sv_y sva, pb_width = sv_width sva,
           pb_height = sv_height sva\<rparr>)
   \<and> (getSavedState m ''code-editor-panel'' = Some svb \<longrightarrow>
        style_bounds (elements (createCodeEditorPanel h m) (nextEl m)) =
          \<lparr>pb_left = sv_x svb, pb_top = sv_y svb, pb_width = sv_width svb,
           pb_height = sv_height svb\<rparr>)
   \<and> (getSavedState m ''profiler-panel'' = Some svc \<longrightarrow>
        style_bounds (elements (createProfilerPanel h m) (nextEl m)) =
          \<lparr>pb_left = sv_x svc, pb_top = sv_y svc, pb_width = sv_width svc,
           pb_height = sv_height svc\<rparr>)
   \<and> panels (loadPanelStates m) = panels m
   \<and> elements (loadPanelStates m) = elements m
   \<and> panels (step h (m\<lparr>savedStates := s\<rparr>) ev) = panels (step h m ev)
   \<and> elements (step h (m\<lparr>savedStates := s\<rparr>) ev) = elements (step h m ev)"
  by (simp add: createPanel_def createViewportPanel_def createCodeEditorPanel_def
      createProfilerPanel_def saved_or_def default_to_def style_bounds_def update_conv'
      loadPanelStates_live step_savedStates Let_def)

theorem persisted_geometry_through_callers_witness:
  "getSavedState persisted_layout ''viewport-panel'' =
     Some \<lparr>sv_x = 5, sv_y = 6, sv_width = 910, sv_height = 610,
           sv_minimized = False, sv_maximized = False\<rparr>
   \<and> getSavedState persisted_layout ''code-editor-panel'' =
     Some \<lparr>sv_x = 7, sv_y = 8, sv_width = 490, sv_height = 530,
           sv_minimized = False, sv_maximized = False\<rparr>
   \<and> getSavedState persisted_layout ''profiler-panel'' =
     Some \<lparr>sv_x = 9, sv_y = 10, sv_width = 270, sv_height = 470,
           sv_minimized = True, sv_maximized = False\<rparr>
   \<and> style_bounds (elements (createViewportPanel (style_host 1000 800) persisted_layout) 0) =
       \<lparr>pb_left = 5, pb_top = 6, pb_width = 910, pb_height = 610\<rparr>
   \<and> style_bounds (elements (createCodeEditorPanel (style_host 1000 800) persisted_layout) 0) =
       \<lparr>pb_left = 7, pb_top = 8, pb_width = 490, pb_height = 530\<rparr>
   \<and> style_bounds (elements (createProfilerPanel (style_host 1000 800) persisted_layout) 0) =
       \<lparr>pb_left = 9, pb_top = 10, pb_width = 270, pb_height = 470\<rparr>"
proof -
  have v: "getSavedState persisted_layout ''viewport-panel'' =
     Some \<lparr>sv_x = 5, sv_y = 6, sv_width = 910, sv_height = 610,
           sv_minimized = False, sv_maximized = False\<rparr>"
    unfolding persisted_layout_def by (simp add: eval_defs)
  have c: "getSavedState persisted_layout ''code-editor-panel'' =
     Some \<lparr>sv_x = 7, sv_y = 8, sv_width = 490, sv_height = 530,
           sv_minimized = False, sv_maximized = False\<rparr>"
    unfolding persisted_layout_def by (simp add: eval_defs)
  have p: "getSavedState persisted_layout ''profiler-panel'' =
     Some \<lparr>sv_x = 9, sv_y = 10, sv_width = 270, sv_height = 470,
           sv_minimized = True, sv_maximized = False\<rparr>"
    unfolding persisted_layout_def by (simp add: eval_defs)
  have n: "nextEl persisted_layout = 0"
    unfolding persisted_layout_def by (simp add: eval_defs)
  from v c p n
    persisted_geometry_through_callers [where m = persisted_layout and h = "style_host 1000 800"
      and sva = "\<lparr>sv_x = 5, sv_y = 6, sv_width = 910, sv_height = 610,
           sv_minimized = False, sv_maximized = False\<rparr>"
      and svb = "\<lparr>sv_x = 7, sv_y = 8, sv_width = 490, sv_height = 530,
           sv_minimized = False, sv_maximized = False\<rparr>"
      and svc = "\<lparr>sv_x = 9, sv_y = 10, sv_width = 270, sv_height = 470,
           sv_minimized = True, sv_maximized = False\<rparr>"]
  show ?thesis by simp
qed

text \<open>
  The claim as stated fails: with an entry persisted for \<open>p1\<close>, \<open>createPanel\<close> called
  with no position or size creates \<open>p1\<close> at the hard defaults.
\<close>

theorem createPanel_ignores_persisted_counterexample:
  "getSavedState persisted_p1 ''p1'' =
     Some \<lparr>sv_x = 5, sv_y = 6, sv_width = 310, sv_height = 410,
           sv_minimized = False, sv_maximized = False\<rparr>
   \<and> map_option element (map_of (panels (createPanel persisted_p1 bare_p1)) ''p1'') = Some 0
   \<and> style_bounds (elements (createPanel persisted_p1 bare_p1) 0) =
       \<lparr>pb_left = 100, pb_top = 100, pb_width = 300, pb_height = 400\<rparr>
   \<and> style_bounds (elements (createPanel persisted_p1 bare_p1) 0) \<noteq>
       \<lparr>pb_left = 5, pb_top = 6, pb_width = 310, pb_height = 410\<rparr>"
  unfolding persisted_p1_def bare_p1_def
  by (simp add: eval_defs style_bounds_def)

subsection \<open>What the operations leave unchanged\<close>

lemma in_update:
  "entry \<in> set (AList.update k v ps) \<Longrightarrow> entry = (k, v) \<or> entry \<in> set ps"
  by (induction ps) (auto split: if_splits)

lemma in_delete: "entry \<in> set (AList.delete k ps) \<Longrightarrow> entry \<in> set ps \<and> fst entry \<noteq> k"
  by (auto simp add: AList.delete_eq)

lemma same_key_same_entry:
  "distinct (map fst ps) \<Longrightarrow> entry \<in> set ps \<Longrightarrow> entry' \<in> set ps \<Longrightarrow>
   fst entry = fst entry' \<Longrightarrow> entry = entry'"
  by (metis eq_key_imp_eq_value prod.collapse)

lemma focusPanel_panels: "panels (focusPanel m pid) = panels m"
  by (simp add: focusPanel_def upd_el_def Let_def split: option.splits)

lemma savePanelStates_panels: "panels (savePanelStates h m) = panels m"
  by (simp add: savePanelStates_def Let_def)

lemma startDrag_panels: "panels (startDrag h m e a pid) = panels m"
  by (simp add: startDrag_def upd_el_def focusPanel_panels Let_def)

lemma startResize_panels: "panels (state_of (startResize h m e a pid d)) = panels m"
  by (simp add: startResize_def upd_el_def focusPanel_panels Let_def split: option.splits)

lemma handleMouseMove_panels: "panels (handleMouseMove h m e) = panels m"
  by (simp add: handleMouseMove_def handleDrag_def handleResize_def upd_el_def showSnapGuide_def
      Let_def split: option.splits)

lemma handleMouseUp_panels: "panels (handleMouseUp h m) = panels m"
  by (simp add: handleMouseUp_def upd_el_def hideSnapGuides_def savePanelStates_panels
      Let_def split: option.splits)

lemma constructor_panels: "panels (constructor item) = []"
  by (simp add: constructor_def loadPanelStates_def split: option.splits stored.splits)

lemma run_snoc: "run h m (evs @ [ev]) = step h (run h m evs) ev"
  by (induction evs arbitrary: m) simp_all

lemma clear_focus_Nil: "clear_focus [] es = es"
  by (simp add: clear_focus_def)

lemma clear_focus_Cons:
  "clear_focus (entry # ps) es =
     clear_focus ps (es(element (snd entry) := (es (element (snd entry)))\<lparr>cl_focused := False\<rparr>))"
  by (simp add: clear_focus_def)

lemma clear_focus_cases:
  "clear_focus ps es a = es a \<or> clear_focus ps es a = (es a)\<lparr>cl_focused := False\<rparr>"
proof (induction ps arbitrary: es)
  case Nil
  show ?case by (simp add: clear_focus_Nil)
next
  case (Cons entry ps)
  let ?es = "es(element (snd entry) := (es (element (snd entry)))\<lparr>cl_focused := False\<rparr>)"
  define y where "y = ?es a"
  define x where "x = clear_focus ps ?es a"
  have 1: "x = y \<or> x = y\<lparr>cl_focused := False\<rparr>"
    unfolding x_def y_def by (rule Cons)
  have 2: "y = es a \<or> y = (es a)\<lparr>cl_focused := False\<rparr>"
    unfolding y_def by simp
  have 3: "clear_focus (entry # ps) es a = x"
    unfolding x_def by (simp only: clear_focus_Cons)
  from 1 2 show ?case unfolding 3 by auto
qed

lemma clear_focus_fields:
  "eid (clear_focus ps es a) = eid (es a)"
  "left_px (clear_focus ps es a) = left_px (es a)"
  "top_px (clear_focus ps es a) = top_px (es a)"
  "width_px (clear_focus ps es a) = width_px (es a)"
  "height_px (clear_focus ps es a) = height_px (es a)"
  "zIndex (clear_focus ps es a) = zIndex (es a)"
  "cl_hidden (clear_focus ps es a) = cl_hidden (es a)"
  "cl_maximized (clear_focus ps es a) = cl_maximized (es a)"
  "handles (clear_focus ps es a) = handles (es a)"
  "attached (clear_focus ps es a) = attached (es a)"
  using clear_focus_cases [of ps es a] by auto

lemma clear_focus_member:
  "a \<in> (\<lambda>entry. element (snd entry)) ` set ps \<Longrightarrow> \<not> cl_focused (clear_focus ps es a)"
proof (induction ps arbitrary: es)
  case Nil
  then show ?case by simp
next
  case (Cons entry ps)
  let ?es = "es(element (snd entry) := (es (element (snd entry)))\<lparr>cl_focused := False\<rparr>)"
  show ?case
  proof (cases "a \<in> (\<lambda>entry. element (snd entry)) ` set ps")
    case True
    then have "\<not> cl_focused (clear_focus ps ?es a)" by (rule Cons.IH)
    then show ?thesis unfolding clear_focus_Cons .
  next
    case False
    with Cons.prems have a: "a = element (snd entry)" by auto
    then have "\<not> cl_focused (?es a)" by simp
    moreover have "clear_focus ps ?es a = ?es a
          \<or> clear_focus ps ?es a = (?es a)\<lparr>cl_focused := False\<rparr>"
      by (rule clear_focus_cases)
    ultimately have "\<not> cl_focused (clear_focus ps ?es a)" by auto
    then show ?thesis unfolding clear_focus_Cons .
  qed
qed

lemma focusPanel_frame:
  "panels (focusPanel m pid) = panels m"
  "nextEl (focusPanel m pid) = nextEl m"
  "resizeState (focusPanel m pid) = resizeState m"
  "dragState (focusPanel m pid) = dragState m"
  "topZIndex (focusPanel m pid) =
     (case map_of (panels m) pid of None \<Rightarrow> topZIndex m | Some pd \<Rightarrow> topZIndex m + 1)"
  by (simp_all add: focusPanel_def upd_el_def Let_def split: option.splits)

lemma focusPanel_fields:
  "eid (elements (focusPanel m pid) a) = eid (elements m a)"
  "left_px (elements (focusPanel m pid) a) = left_px (elements m a)"
  "top_px (elements (focusPanel m pid) a) = top_px (elements m a)"
  "width_px (elements (focusPanel m pid) a) = width_px (elements m a)"
  "height_px (elements (focusPanel m pid) a) = height_px (elements m a)"
  "cl_hidden (elements (focusPanel m pid) a) = cl_hidden (elements m a)"
  "cl_maximized (elements (focusPanel m pid) a) = cl_maximized (elements m a)"
  "handles (elements (focusPanel m pid) a) = handles (elements m a)"
  "attached (elements (focusPanel m pid) a) = attached (elements m a)"
  by (simp_all add: focusPanel_def upd_el_def clear_focus_fields Let_def split: option.splits)

lemma focusPanel_zIndex:
  "zIndex (elements (focusPanel m pid) a) =
     (case map_of (panels m) pid of
        None \<Rightarrow> zIndex (elements m a)
      | Some pd \<Rightarrow> if a = element pd then Some (topZIndex m + 1) else zIndex (elements m a))"
  by (simp add: focusPanel_def upd_el_def clear_focus_fields Let_def split: option.splits)

lemma focusPanel_cl_focused:
  "map_of (panels m) pid = Some pd \<Longrightarrow>
   cl_focused (elements (focusPanel m pid) a) =
     (a = element pd \<or> cl_focused (clear_focus (panels m) (elements m) a))"
  by (simp add: focusPanel_def upd_el_def Let_def)

lemma focusPanel_activePanel:
  "map_of (panels m) pid = Some pd \<Longrightarrow> activePanel (focusPanel m pid) = Some pid"
  by (simp add: focusPanel_def upd_el_def Let_def)

lemma savePanelStates_frame:
  "panels (savePanelStates h m) = panels m"
  "nextEl (savePanelStates h m) = nextEl m"
  "resizeState (savePanelStates h m) = resizeState m"
  "dragState (savePanelStates h m) = dragState m"
  "topZIndex (savePanelStates h m) = topZIndex m"
  "elements (savePanelStates h m) = elements m"
  by (simp_all add: savePanelStates_def Let_def)

lemma handleDrag_frame:
  "panels (handleDrag h m ds e) = panels m"
  "nextEl (handleDrag h m ds e) = nextEl m"
  "resizeState (handleDrag h m ds e) = resizeState m"
  "dragState (handleDrag h m ds e) = dragState m"
  "topZIndex (handleDrag h m ds e) = topZIndex m"
  by (simp_all add: handleDrag_def showSnapGuide_def upd_el_def Let_def)

lemma handleDrag_fields:
  "eid (elements (handleDrag h m ds e) a) = eid (elements m a)"
  "zIndex (elements (handleDrag h m ds e) a) = zIndex (elements m a)"
  "width_px (elements (handleDrag h m ds e) a) = width_px (elements m a)"
  "height_px (elements (handleDrag h m ds e) a) = height_px (elements m a)"
  by (simp_all add: handleDrag_def showSnapGuide_def upd_el_def Let_def)

lemma handleResize_frame:
  "panels (handleResize m rs e) = panels m"
  "nextEl (handleResize m rs e) = nextEl m"
  "resizeState (handleResize m rs e) = resizeState m"
  "dragState (handleResize m rs e) = dragState m"
  "topZIndex (handleResize m rs e) = topZIndex m"
  by (simp_all add: handleResize_def upd_el_def Let_def)

lemma handleResize_fields:
  "eid (elements (handleResize m rs e) a) = eid (elements m a)"
  "zIndex (elements (handleResize m rs e) a) = zIndex (elements m a)"
  by (simp_all add: handleResize_def upd_el_def Let_def)

lemma handleResize_size:
  "width_px (elements (handleResize m rs e) a) =
     (if a = resize_panel rs
      then (if str_includes (resize_direction rs) CHR ''w''
            then max (resize_minWidth rs) (resize_startWidth rs - (clientX e - resize_startX rs))
            else if str_includes (resize_direction rs) CHR ''e''
            then max (resize_minWidth rs) (resize_startWidth rs + (clientX e - resize_startX rs))
            else resize_startWidth rs)
      else width_px (elements m a))"
  "height_px (elements (handleResize m rs e) a) =
     (if a = resize_panel rs
      then (if str_includes (resize_direction rs) CHR ''n''
            then max (resize_minHeight rs) (resize_startHeight rs - (clientY e - resize_startY rs))
            else if str_includes (resize_direction rs) CHR ''s''
            then max (resize_minHeight rs) (resize_startHeight rs + (clientY e - resize_startY rs))
            else resize_startHeight rs)
      else height_px (elements m a))"
  by (simp_all add: handleResize_def upd_el_def Let_def)

lemma handleMouseMove_frame:
  "panels (handleMouseMove h m e) = panels m"
  "nextEl (handleMouseMove h m e) = nextEl m"
  "resizeState (handleMouseMove h m e) = resizeState m"
  "dragState (handleMouseMove h m e) = dragState m"
  "topZIndex (handleMouseMove h m e) = topZIndex m"
  "eid (elements (handleMouseMove h m e) a) = eid (elements m a)"
  "zIndex (elements (handleMouseMove h m e) a) = zIndex (elements m a)"
  by (simp_all add: handleMouseMove_def handleDrag_frame handleDrag_fields
      handleResize_frame handleResize_fields split: option.splits)

subsection \<open>A maximized panel has saved bounds\<close>

lemma step_maximized_has_bounds:
  assumes "maximized_has_bounds m"
  shows "maximized_has_bounds (step h m ev)"
proof (cases ev)
  case (CreatePanel cfg)
  with assms show ?thesis
    by (auto simp add: maximized_has_bounds_def list_all_iff createPanel_def Let_def
        dest!: in_update)
next
  case (ClosePanel pid)
  with assms show ?thesis
    by (auto simp add: maximized_has_bounds_def list_all_iff closePanel_def Let_def
        savePanelStates_panels upd_el_def
        dest!: in_delete split: option.splits)
next
  case (ShowPanel pid)
  with assms show ?thesis
    by (auto simp add: maximized_has_bounds_def list_all_iff showPanel_def focusPanel_panels
        upd_el_def upd_state_def
        dest!: in_update map_of_SomeD split: option.splits)
next
  case (MinimizePanel pid)
  with assms show ?thesis
    by (auto simp add: maximized_has_bounds_def list_all_iff minimizePanel_def 
        upd_el_def upd_state_def
        dest!: in_update map_of_SomeD split: option.splits)
next
  case (ToggleMaximize pid)
  with assms show ?thesis
    by (auto simp add: maximized_has_bounds_def list_all_iff toggleMaximize_def 
        upd_el_def upd_state_def Let_def
        dest!: in_update map_of_SomeD split: option.splits)
next
  case (FocusPanel pid)
  with assms show ?thesis
    by (simp add: maximized_has_bounds_def focusPanel_panels)
next
  case (HeaderMouseDown a e)
  with assms show ?thesis
    by (simp add: maximized_has_bounds_def focusPanel_panels startDrag_panels)
next
  case (PanelMouseDown a)
  with assms show ?thesis
    by (simp add: maximized_has_bounds_def focusPanel_panels)
next
  case (HandleMouseDown a d e)
  with assms show ?thesis
    by (simp add: maximized_has_bounds_def startResize_panels)
next
  case (MouseMove e)
  with assms show ?thesis
    by (simp add: maximized_has_bounds_def handleMouseMove_panels)
next
  case MouseUp
  with assms show ?thesis
    by (simp add: maximized_has_bounds_def handleMouseUp_panels)
qed

lemma run_maximized_has_bounds: "maximized_has_bounds (run h (constructor item) evs)"
proof (induction evs rule: rev_induct)
  case Nil
  show ?case by (simp add: maximized_has_bounds_def constructor_panels)
next
  case (snoc ev evs)
  then show ?case by (simp add: run_snoc step_maximized_has_bounds)
qed

lemma step_never_maximized:
  assumes "never_maximized pid m" "ev \<noteq> ToggleMaximize pid"
  shows "never_maximized pid (step h m ev)"
proof (cases ev)
  case (CreatePanel cfg)
  with assms show ?thesis
    by (simp add: never_maximized_def createPanel_def Let_def update_conv')
next
  case (ClosePanel k)
  with assms show ?thesis
    by (simp add: never_maximized_def closePanel_def Let_def savePanelStates_panels upd_el_def
        delete_conv' split: option.splits)
next
  case (ShowPanel k)
  with assms show ?thesis
    by (auto simp add: never_maximized_def showPanel_def focusPanel_panels upd_el_def
        upd_state_def update_conv' split: option.splits)
next
  case (MinimizePanel k)
  with assms show ?thesis
    by (auto simp add: never_maximized_def minimizePanel_def upd_el_def
        upd_state_def update_conv' split: option.splits)
next
  case (ToggleMaximize k)
  with assms have "k \<noteq> pid" by auto
  with ToggleMaximize assms(1) show ?thesis
    by (auto simp add: never_maximized_def toggleMaximize_def Let_def upd_el_def
        upd_state_def update_conv' split: option.splits)
next
  case (FocusPanel k)
  with assms show ?thesis by (simp add: never_maximized_def focusPanel_panels)
next
  case (HeaderMouseDown a e)
  with assms show ?thesis
    by (simp add: never_maximized_def focusPanel_panels startDrag_panels)
next
  case (PanelMouseDown a)
  with assms show ?thesis by (simp add: never_maximized_def focusPanel_panels)
next
  case (HandleMouseDown a d e)
  with assms show ?thesis by (simp add: never_maximized_def startResize_panels)
next
  case (MouseMove e)
  with assms show ?thesis by (simp add: never_maximized_def handleMouseMove_panels)
next
  case MouseUp
  with assms show ?thesis by (simp add: never_maximized_def handleMouseUp_panels)
qed

lemma run_never_maximized:
  "never_maximized pid m \<Longrightarrow> ToggleMaximize pid \<notin> set evs \<Longrightarrow>
   never_maximized pid (run h m evs)"
  by (induction evs arbitrary: m) (auto simp add: step_never_maximized)

lemma constructor_never_maximized: "never_maximized pid (constructor item)"
  by (simp add: never_maximized_def constructor_panels)

lemma restore_effect:
  assumes "map_of (panels m) pid = Some pd" "maximized (state pd)"
    and "prevBounds (state pd) = Some prev"
  shows "\<exists>m'. toggleMaximize m pid = Returned m'
           \<and> map_of (panels m') pid = Some (pd\<lparr>state := (state pd)\<lparr>maximized := False\<rparr>\<rparr>)
           \<and> style_bounds (elements m' (element pd)) = prev
           \<and> \<not> cl_maximized (elements m' (element pd))"
  using assms
  by (simp add: toggleMaximize_def Let_def upd_el_def upd_state_def update_conv'
      style_bounds_def)

text \<open>
  Claim C2 (amended). After every sequence of operations, a panel that is maximized has
  a non-null \<open>prevBounds\<close>. The converse holds only for a panel whose id has never been
  passed to \<open>toggleMaximize\<close>: it is not maximized and its \<open>prevBounds\<close> is null.
  \<open>toggleMaximize\<close> on a maximized panel returns, copies \<open>prevBounds\<close> back into the
  geometry and clears \<open>maximized\<close> (and the class), and leaves \<open>prevBounds\<close> as it was.
\<close>

theorem maximized_has_prevBounds:
  assumes "map_of (panels (run h (constructor item) evs)) pid = Some pd"
  shows "(maximized (state pd) \<longrightarrow> prevBounds (state pd) \<noteq> None)
       \<and> (ToggleMaximize pid \<notin> set evs \<longrightarrow>
            \<not> maximized (state pd) \<and> prevBounds (state pd) = None)
       \<and> (maximized (state pd) \<longrightarrow>
            (\<exists>prev m'. prevBounds (state pd) = Some prev
               \<and> toggleMaximize (run h (constructor item) evs) pid = Returned m'
               \<and> map_of (panels m') pid = Some (pd\<lparr>state := (state pd)\<lparr>maximized := False\<rparr>\<rparr>)
               \<and> style_bounds (elements m' (element pd)) = prev
               \<and> \<not> cl_maximized (elements m' (element pd))))"
proof -
  from assms have "(pid, pd) \<in> set (panels (run h (constructor item) evs))"
    by (rule map_of_SomeD)
  with run_maximized_has_bounds [of h item evs]
  have a: "maximized (state pd) \<longrightarrow> prevBounds (state pd) \<noteq> None"
    by (auto simp add: maximized_has_bounds_def list_all_iff)
  have b: "\<not> maximized (state pd) \<and> prevBounds (state pd) = None"
    if "ToggleMaximize pid \<notin> set evs"
  proof -
    from constructor_never_maximized that
    have "never_maximized pid (run h (constructor item) evs)"
      by (rule run_never_maximized)
    with assms show ?thesis by (simp add: never_maximized_def)
  qed
  have c: "\<exists>prev m'. prevBounds (state pd) = Some prev
               \<and> toggleMaximize (run h (constructor item) evs) pid = Returned m'
               \<and> map_of (panels m') pid = Some (pd\<lparr>state := (state pd)\<lparr>maximized := False\<rparr>\<rparr>)
               \<and> style_bounds (elements m' (element pd)) = prev
               \<and> \<not> cl_maximized (elements m' (element pd))"
    if max: "maximized (state pd)"
  proof -
    from a max obtain prev where prev: "prevBounds (state pd) = Some prev" by auto
    from restore_effect [OF assms max prev] prev show ?thesis by blast
  qed
  from a b c show ?thesis by blast
qed

theorem maximized_has_prevBounds_witness:
  "map_option state
     (map_of (panels (run (style_host 1000 800) (constructor None)
                        [CreatePanel scenario3_config, ToggleMaximize ''p1''])) ''p1'') =
     Some \<lparr>minimized = False, maximized = True,
           prevBounds = Some \<lparr>pb_left = 100, pb_top = 100, pb_width = 300, pb_height = 200\<rparr>\<rparr>
   \<and> (\<exists>m'. toggleMaximize (run (style_host 1000 800) (constructor None)
                        [CreatePanel scenario3_config, ToggleMaximize ''p1'']) ''p1'' = Returned m'
          \<and> map_option state (map_of (panels m') ''p1'') =
             Some \<lparr>minimized = False, maximized = False,
               prevBounds = Some \<lparr>pb_left = 100, pb_top = 100, pb_width = 300, pb_height = 200\<rparr>\<rparr>
          \<and> style_bounds (elements m' 0) =
             \<lparr>pb_left = 100, pb_top = 100, pb_width = 300, pb_height = 200\<rparr>)
   \<and> ToggleMaximize ''p1'' \<notin> set [CreatePanel scenario3_config]
   \<and> map_option state
       (map_of (panels (run (style_host 1000 800) (constructor None)
                          [CreatePanel scenario3_config])) ''p1'') =
       Some \<lparr>minimized = False, maximized = False, prevBounds = None\<rparr>"
proof -
  let ?pd = "\<lparr>element = 0,
           config = \<lparr>cid = ''p1'', title = ''Panel'', minWidth = 200, minHeight = 150,
                      resizable = True, closable = True\<rparr>,
           state = \<lparr>minimized = False, maximized = True,
             prevBounds = Some \<lparr>pb_left = 100, pb_top = 100, pb_width = 300,
                                 pb_height = 200\<rparr>\<rparr>\<rparr>"
  let ?created = "\<lparr>element = 0,
           config = \<lparr>cid = ''p1'', title = ''Panel'', minWidth = 200, minHeight = 150,
                      resizable = True, closable = True\<rparr>,
           state = \<lparr>minimized = False, maximized = False, prevBounds = None\<rparr>\<rparr>"
  have h1: "map_of (panels (run (style_host 1000 800) (constructor None)
                        [CreatePanel scenario3_config, ToggleMaximize ''p1''])) ''p1'' = Some ?pd"
    unfolding scenario3_config_def by (simp add: eval_defs)
  have h2: "map_of (panels (run (style_host 1000 800) (constructor None)
                        [CreatePanel scenario3_config])) ''p1'' = Some ?created"
    unfolding scenario3_config_def by (simp add: eval_defs)
  have h3: "ToggleMaximize ''p1'' \<notin> set [CreatePanel scenario3_config]" by simp
  from maximized_has_prevBounds [OF h1]
  obtain prev m' where r:
    "prevBounds (state ?pd) = Some prev"
    "toggleMaximize (run (style_host 1000 800) (constructor None)
        [CreatePanel scenario3_config, ToggleMaximize ''p1'']) ''p1'' = Returned m'"
    "map_of (panels m') ''p1'' = Some (?pd\<lparr>state := (state ?pd)\<lparr>maximized := False\<rparr>\<rparr>)"
    "style_bounds (elements m' (element ?pd)) = prev"
    by auto
  from r(1) have p: "prev = \<lparr>pb_left = 100, pb_top = 100, pb_width = 300, pb_height = 200\<rparr>"
    by simp
  from r(3) have s: "map_option state (map_of (panels m') ''p1'') =
             Some \<lparr>minimized = False, maximized = False,
               prevBounds = Some \<lparr>pb_left = 100, pb_top = 100, pb_width = 300, pb_height = 200\<rparr>\<rparr>"
    by simp
  from r(4) p have g: "style_bounds (elements m' 0) =
             \<lparr>pb_left = 100, pb_top = 100, pb_width = 300, pb_height = 200\<rparr>"
    by simp
  from maximized_has_prevBounds [OF h2] h3
  have n: "\<not> maximized (state ?created) \<and> prevBounds (state ?created) = None"
    by simp
  from r(2) s g have e: "\<exists>m'. toggleMaximize (run (style_host 1000 800) (constructor None)
                        [CreatePanel scenario3_config, ToggleMaximize ''p1'']) ''p1'' = Returned m'
          \<and> map_option state (map_of (panels m') ''p1'') =
             Some \<lparr>minimized = False, maximized = False,
               prevBounds = Some \<lparr>pb_left = 100, pb_top = 100, pb_width = 300, pb_height = 200\<rparr>\<rparr>
          \<and> style_bounds (elements m' 0) =
             \<lparr>pb_left = 100, pb_top = 100, pb_width = 300, pb_height = 200\<rparr>"
    by blast
  from h1 h2 h3 e n show ?thesis by simp
qed

text \<open>
  The claim as stated fails: after maximize and restore the panel is not maximized and
  \<open>prevBounds\<close> still holds the restored rectangle.
\<close>

theorem restore_keeps_prevBounds_counterexample:
  "map_option state
     (map_of (panels (run (style_host 1000 800) (constructor None)
                        [CreatePanel scenario3_config, ToggleMaximize ''p1'',
                         ToggleMaximize ''p1''])) ''p1'') =
     Some \<lparr>minimized = False, maximized = False,
           prevBounds = Some \<lparr>pb_left = 100, pb_top = 100, pb_width = 300, pb_height = 200\<rparr>\<rparr>
   \<and> map_option (prevBounds \<circ> state)
     (map_of (panels (run (style_host 1000 800) (constructor None)
                        [CreatePanel scenario3_config, ToggleMaximize ''p1'',
                         ToggleMaximize ''p1''])) ''p1'') \<noteq> Some None"
  unfolding scenario3_config_def by (simp add: eval_defs)

subsection \<open>The registry stays well formed\<close>

lemma focusPanel_entry_wf:
  "entry_wf m entry \<Longrightarrow> entry_wf (focusPanel m pid) entry"
  by (auto simp add: entry_wf_def focusPanel_frame focusPanel_fields focusPanel_zIndex
      split: option.splits)

lemma focusPanel_registry_wf: "registry_wf m \<Longrightarrow> registry_wf (focusPanel m pid)"
  by (simp add: registry_wf_def focusPanel_frame list_all_iff focusPanel_entry_wf
      split: option.splits)

lemma createPanel_registry_wf: "registry_wf m \<Longrightarrow> registry_wf (createPanel m cfg)"
  by (auto simp add: registry_wf_def list_all_iff entry_wf_def createPanel_def Let_def
      distinct_update dest!: in_update split: option.splits)

lemma closePanel_registry_wf: "registry_wf m \<Longrightarrow> registry_wf (closePanel h m pid)"
  by (auto simp add: registry_wf_def list_all_iff entry_wf_def closePanel_def Let_def
      savePanelStates_frame upd_el_def distinct_delete
      dest!: in_delete split: option.splits)

lemma minimizePanel_registry_wf: "registry_wf m \<Longrightarrow> registry_wf (minimizePanel m pid)"
  by (auto simp add: registry_wf_def list_all_iff entry_wf_def minimizePanel_def
      upd_el_def upd_state_def distinct_update
      dest!: in_update map_of_SomeD split: option.splits)

lemma toggleMaximize_registry_wf:
  "registry_wf m \<Longrightarrow> registry_wf (state_of (toggleMaximize m pid))"
  by (auto simp add: registry_wf_def list_all_iff entry_wf_def toggleMaximize_def Let_def
      upd_el_def upd_state_def distinct_update
      dest!: in_update map_of_SomeD split: option.splits)

lemma show_prepare_wf:
  "registry_wf m \<Longrightarrow> map_of (panels m) pid = Some pd \<Longrightarrow>
   registry_wf (upd_state pid pd (\<lambda>s. s\<lparr>minimized := False\<rparr>)
                  (upd_el (element pd) (\<lambda>el. el\<lparr>cl_hidden := False\<rparr>) m))"
  by (auto simp add: registry_wf_def list_all_iff entry_wf_def
      upd_el_def upd_state_def distinct_update
      dest!: in_update map_of_SomeD split: option.splits)

lemma showPanel_registry_wf: "registry_wf m \<Longrightarrow> registry_wf (showPanel m pid)"
proof (cases "map_of (panels m) pid")
  case None
  then show "registry_wf m \<Longrightarrow> registry_wf (showPanel m pid)" by (simp add: showPanel_def)
next
  case (Some pd)
  assume "registry_wf m"
  then have "registry_wf (upd_state pid pd (\<lambda>s. s\<lparr>minimized := False\<rparr>)
               (upd_el (element pd) (\<lambda>el. el\<lparr>cl_hidden := False\<rparr>) m))"
    using Some
    by (auto simp add: registry_wf_def list_all_iff entry_wf_def
      upd_el_def upd_state_def distinct_update
      dest!: in_update map_of_SomeD split: option.splits)
  then show "registry_wf (showPanel m pid)"
    using Some by (simp add: showPanel_def focusPanel_registry_wf)
qed

lemma startDrag_registry_wf: "registry_wf m \<Longrightarrow> registry_wf (startDrag h m e a pid)"
  using focusPanel_registry_wf [of m pid]
  by (auto simp add: registry_wf_def list_all_iff entry_wf_def startDrag_def Let_def
      upd_el_def split: option.splits)

lemma startResize_registry_wf:
  "registry_wf m \<Longrightarrow> a < nextEl m \<Longrightarrow> registry_wf (state_of (startResize h m e a pid d))"
  using focusPanel_registry_wf [of m pid]
  by (auto simp add: registry_wf_def list_all_iff entry_wf_def startResize_def Let_def
      upd_el_def focusPanel_frame split: option.splits)

lemma handleMouseMove_registry_wf: "registry_wf m \<Longrightarrow> registry_wf (handleMouseMove h m e)"
  by (auto simp add: registry_wf_def list_all_iff entry_wf_def handleMouseMove_frame
      split: option.splits)

lemma handleMouseUp_registry_wf: "registry_wf m \<Longrightarrow> registry_wf (handleMouseUp h m)"
  by (auto simp add: registry_wf_def list_all_iff entry_wf_def handleMouseUp_def
      hideSnapGuides_def savePanelStates_frame Let_def
      upd_el_def split: option.splits)

lemma step_registry_wf: "registry_wf m \<Longrightarrow> registry_wf (step h m ev)"
  by (cases ev)
    (simp_all add: createPanel_registry_wf closePanel_registry_wf showPanel_registry_wf
      minimizePanel_registry_wf toggleMaximize_registry_wf focusPanel_registry_wf
      startDrag_registry_wf startResize_registry_wf handleMouseMove_registry_wf
      handleMouseUp_registry_wf receives_def)

lemma constructor_registry_wf: "registry_wf (constructor item)"
  by (simp add: registry_wf_def constructor_def loadPanelStates_def
      split: option.splits stored.splits)

lemma run_registry_wf: "registry_wf m \<Longrightarrow> registry_wf (run h m evs)"
  by (induction evs arbitrary: m) (simp_all add: step_registry_wf)

lemma same_element_same_entry:
  assumes "registry_wf m" "entry \<in> set (panels m)" "entry' \<in> set (panels m)"
    and "element (snd entry) = element (snd entry')"
  shows "entry = entry'"
proof -
  from assms(1,2) have a: "eid (elements m (element (snd entry))) = fst entry"
    by (simp add: registry_wf_def list_all_iff entry_wf_def)
  from assms(1,3) have b: "eid (elements m (element (snd entry'))) = fst entry'"
    by (simp add: registry_wf_def list_all_iff entry_wf_def)
  from a b assms(4) have "fst entry = fst entry'" by simp
  moreover from assms(1) have "distinct (map fst (panels m))"
    by (simp add: registry_wf_def)
  ultimately show ?thesis using assms(2,3) by (blast intro: same_key_same_entry)
qed

subsection \<open>Showing a panel focuses it\<close>

lemma focusPanel_others:
  assumes wf: "registry_wf m" and found: "map_of (panels m) pid = Some pd"
    and entry: "entry \<in> set (panels m)" and other: "fst entry \<noteq> pid"
  shows "\<not> cl_focused (elements (focusPanel m pid) (element (snd entry)))
       \<and> (case zIndex (elements (focusPanel m pid) (element (snd entry))) of
             None \<Rightarrow> True
           | Some z \<Rightarrow> z < topZIndex (focusPanel m pid))"
proof -
  from found have mem: "(pid, pd) \<in> set (panels m)" by (rule map_of_SomeD)
  have ne: "element (snd entry) \<noteq> element pd"
  proof
    assume "element (snd entry) = element pd"
    then have "element (snd entry) = element (snd (pid, pd))" by simp
    with wf entry mem have "entry = (pid, pd)" by (rule same_element_same_entry)
    with other show False by simp
  qed
  from entry have "element (snd entry) \<in> (\<lambda>entry. element (snd entry)) ` set (panels m)"
    by (rule imageI)
  then have "\<not> cl_focused (clear_focus (panels m) (elements m) (element (snd entry)))"
    by (rule clear_focus_member)
  with ne found have 1: "\<not> cl_focused (elements (focusPanel m pid) (element (snd entry)))"
    by (simp add: focusPanel_cl_focused)
  from wf entry have "entry_wf m entry" by (simp add: registry_wf_def list_all_iff)
  with ne found have 2: "case zIndex (elements (focusPanel m pid) (element (snd entry))) of
             None \<Rightarrow> True
           | Some z \<Rightarrow> z < topZIndex (focusPanel m pid)"
    by (auto simp add: entry_wf_def focusPanel_zIndex focusPanel_frame split: option.splits)
  from 1 2 show ?thesis ..
qed

text \<open>
  Claim C10. In every reachable state, \<open>showPanel\<close> on a known panel clears its
  \<open>minimized\<close> flag and its \<open>hidden\<close> class and focuses it, whether it was hidden or
  not: the panel gets the class \<open>focused\<close> and the \<open>zIndex\<close> \<open>topZIndex + 1\<close>, \<open>topZIndex\<close>
  is incremented, and every other panel of the registry is left without the class
  \<open>focused\<close> and with a \<open>zIndex\<close> (if any) below the new one.
\<close>

theorem showPanel_focuses:
  assumes "map_of (panels (run h (constructor item) evs)) pid = Some pd"
  shows "map_of (panels (showPanel (run h (constructor item) evs) pid)) pid =
           Some (pd\<lparr>state := (state pd)\<lparr>minimized := False\<rparr>\<rparr>)
       \<and> \<not> cl_hidden (elements (showPanel (run h (constructor item) evs) pid) (element pd))
       \<and> cl_focused (elements (showPanel (run h (constructor item) evs) pid) (element pd))
       \<and> zIndex (elements (showPanel (run h (constructor item) evs) pid) (element pd)) =
           Some (topZIndex (run h (constructor item) evs) + 1)
       \<and> topZIndex (showPanel (run h (constructor item) evs) pid) =
           topZIndex (run h (constructor item) evs) + 1
       \<and> activePanel (showPanel (run h (constructor item) evs) pid) = Some pid
       \<and> (\<forall>entry \<in> set (panels (showPanel (run h (constructor item) evs) pid)).
             fst entry \<noteq> pid \<longrightarrow>
               \<not> cl_focused (elements (showPanel (run h (constructor item) evs) pid)
                                (element (snd entry)))
               \<and> (case zIndex (elements (showPanel (run h (constructor item) evs) pid)
                                 (element (snd entry))) of
                     None \<Rightarrow> True
                   | Some z \<Rightarrow> z < topZIndex (run h (constructor item) evs) + 1))"
proof -
  define m where "m = run h (constructor item) evs"
  define pd' where "pd' = pd\<lparr>state := (state pd)\<lparr>minimized := False\<rparr>\<rparr>"
  define m1 where "m1 = upd_state pid pd (\<lambda>s. s\<lparr>minimized := False\<rparr>)
                  (upd_el (element pd) (\<lambda>el. el\<lparr>cl_hidden := False\<rparr>) m)"
  have found: "map_of (panels m) pid = Some pd" using assms by (simp add: m_def)
  have wf: "registry_wf m"
    unfolding m_def using constructor_registry_wf by (rule run_registry_wf)
  have wf1: "registry_wf m1" unfolding m1_def using wf found by (rule show_prepare_wf)
  have sp: "showPanel m pid = focusPanel m1 pid"
    using found by (simp add: showPanel_def m1_def)
  have found1: "map_of (panels m1) pid = Some pd'"
    by (simp add: m1_def pd'_def upd_state_def upd_el_def update_conv')
  have el: "element pd' = element pd" by (simp add: pd'_def)
  have top1: "topZIndex m1 = topZIndex m" by (simp add: m1_def upd_state_def upd_el_def)
  have hid1: "\<not> cl_hidden (elements m1 (element pd))"
    by (simp add: m1_def upd_state_def upd_el_def)
  have a: "map_of (panels (showPanel m pid)) pid = Some pd'"
    using found1 by (simp add: sp focusPanel_frame)
  have b: "\<not> cl_hidden (elements (showPanel m pid) (element pd))"
    using hid1 by (simp add: sp focusPanel_fields)
  have c: "cl_focused (elements (showPanel m pid) (element pd))"
    using found1 el by (simp add: sp focusPanel_cl_focused)
  have d: "zIndex (elements (showPanel m pid) (element pd)) = Some (topZIndex m + 1)"
    using found1 el top1 by (simp add: sp focusPanel_zIndex)
  have e: "topZIndex (showPanel m pid) = topZIndex m + 1"
    using found1 top1 by (simp add: sp focusPanel_frame)
  have f: "activePanel (showPanel m pid) = Some pid"
    using found1 by (simp add: sp focusPanel_activePanel)
  have g: "\<not> cl_focused (elements (showPanel m pid) (element (snd entry)))
           \<and> (case zIndex (elements (showPanel m pid) (element (snd entry))) of
                 None \<Rightarrow> True
               | Some z \<Rightarrow> z < topZIndex m + 1)"
    if "entry \<in> set (panels (showPanel m pid))" "fst entry \<noteq> pid" for entry
  proof -
    from that(1) have "entry \<in> set (panels m1)" by (simp add: sp focusPanel_frame)
    with wf1 found1 have "\<not> cl_focused (elements (focusPanel m1 pid) (element (snd entry)))
       \<and> (case zIndex (elements (focusPanel m1 pid) (element (snd entry))) of
             None \<Rightarrow> True
           | Some z \<Rightarrow> z < topZIndex (focusPanel m1 pid))"
      using that(2) by (rule focusPanel_others)
    then show ?thesis using e by (simp add: sp split: option.splits)
  qed
  from a b c d e f g show ?thesis unfolding m_def pd'_def by blast
qed

theorem showPanel_focuses_witness:
  "map_option element (map_of (panels two_panels) ''p1'') = Some 0
   \<and> map_option element (map_of (panels (showPanel two_panels ''p1'')) ''p2'') = Some 1
   \<and> topZIndex two_panels = 101
   \<and> cl_focused (elements two_panels 1)
   \<and> cl_focused (elements (showPanel two_panels ''p1'') 0)
   \<and> zIndex (elements (showPanel two_panels ''p1'') 0) = Some 102
   \<and> \<not> cl_focused (elements (showPanel two_panels ''p1'') 1)"
proof -
  let ?pd = "\<lparr>element = 0,
           config = \<lparr>cid = ''p1'', title = ''Panel'', minWidth = 200, minHeight = 150,
                      resizable = True, closable = True\<rparr>,
           state = \<lparr>minimized = False, maximized = False, prevBounds = None\<rparr>\<rparr>"
  let ?pd2 = "\<lparr>element = 1,
           config = \<lparr>cid = ''p2'', title = ''Other'', minWidth = 200, minHeight = 150,
                      resizable = True, closable = True\<rparr>,
           state = \<lparr>minimized = False, maximized = False, prevBounds = None\<rparr>\<rparr>"
  let ?m = "run (style_host 1000 800) (constructor None)
       [CreatePanel scenario3_config,
        CreatePanel \<lparr>c_id = ''p2'', c_title = ''Other'', c_x = Some 500, c_y = Some 100,
          c_width = None, c_height = None, c_minWidth = None, c_minHeight = None,
          c_resizable = None, c_closable = None\<rparr>,
        FocusPanel ''p2'']"
  have h1: "map_of (panels ?m) ''p1'' = Some ?pd"
    unfolding scenario3_config_def by (simp add: eval_defs)
  have h2: "topZIndex ?m = 101"
    unfolding scenario3_config_def by (simp add: eval_defs)
  have h3: "cl_focused (elements ?m 1)"
    unfolding scenario3_config_def by (simp add: eval_defs)
  have h4: "panels (showPanel ?m ''p1'') = [(''p1'', ?pd), (''p2'', ?pd2)]"
    unfolding scenario3_config_def by (simp add: eval_defs)
  note t = showPanel_focuses [OF h1]
  from t have t1: "cl_focused (elements (showPanel ?m ''p1'') 0)" by simp
  from t h2 have t2: "zIndex (elements (showPanel ?m ''p1'') 0) = Some 102" by simp
  from t have "\<forall>entry \<in> set (panels (showPanel ?m ''p1'')).
             fst entry \<noteq> ''p1'' \<longrightarrow>
               \<not> cl_focused (elements (showPanel ?m ''p1'') (element (snd entry)))"
    by simp
  then have t3: "\<not> cl_focused (elements (showPanel ?m ''p1'') 1)"
    unfolding h4 by simp
  from h1 h2 h3 h4 t1 t2 t3 show ?thesis
    unfolding two_panels_def by simp
qed

subsection \<open>Minimum size\<close>

lemma createPanel_min_size:
  "registry_wf m \<Longrightarrow> min_size_inv m \<Longrightarrow> event_keeps_min h m (CreatePanel cfg) \<Longrightarrow>
   min_size_inv (createPanel m cfg)"
  by (auto simp add: min_size_inv_def registry_wf_def list_all_iff entry_wf_def
      entry_min_size_def createPanel_def Let_def
      dest!: in_update split: option.splits)

lemma closePanel_min_size: "min_size_inv m \<Longrightarrow> min_size_inv (closePanel h m pid)"
  by (auto simp add: min_size_inv_def list_all_iff entry_min_size_def closePanel_def Let_def
      savePanelStates_frame upd_el_def
      dest!: in_delete split: option.splits)

lemma minimizePanel_min_size: "min_size_inv m \<Longrightarrow> min_size_inv (minimizePanel m pid)"
  by (auto simp add: min_size_inv_def list_all_iff entry_min_size_def minimizePanel_def
      upd_el_def upd_state_def
      dest!: in_update map_of_SomeD split: option.splits)

lemma focusPanel_min_size: "min_size_inv m \<Longrightarrow> min_size_inv (focusPanel m pid)"
  by (auto simp add: min_size_inv_def list_all_iff entry_min_size_def focusPanel_frame
      focusPanel_fields split: option.splits)

lemma showPanel_min_size: "min_size_inv m \<Longrightarrow> min_size_inv (showPanel m pid)"
proof (cases "map_of (panels m) pid")
  case None
  then show "min_size_inv m \<Longrightarrow> min_size_inv (showPanel m pid)" by (simp add: showPanel_def)
next
  case (Some pd)
  assume "min_size_inv m"
  then have "min_size_inv (upd_state pid pd (\<lambda>s. s\<lparr>minimized := False\<rparr>)
               (upd_el (element pd) (\<lambda>el. el\<lparr>cl_hidden := False\<rparr>) m))"
    using Some
    by (auto simp add: min_size_inv_def list_all_iff entry_min_size_def
      upd_el_def upd_state_def
      dest!: in_update map_of_SomeD split: option.splits)
  then show "min_size_inv (showPanel m pid)"
    using Some by (simp add: showPanel_def focusPanel_min_size)
qed

lemma toggleMaximize_min_size:
  assumes "registry_wf m" "min_size_inv m"
  shows "min_size_inv (state_of (toggleMaximize m pid))"
proof (cases "map_of (panels m) pid")
  case None
  with assms show ?thesis by (simp add: toggleMaximize_def)
next
  case (Some pd)
  then have mem: "(pid, pd) \<in> set (panels m)" by (rule map_of_SomeD)
  have other: "entry = (pid, pd)"
    if "entry \<in> set (panels m)" "element (snd entry) = element pd" for entry
    using same_element_same_entry [OF assms(1) that(1) mem] that(2) by simp
  from mem assms(2) have pd_ok: "entry_min_size m (pid, pd)"
    by (simp add: min_size_inv_def list_all_iff)
  show ?thesis
  proof (cases "maximized (state pd)")
    case False
    with Some assms(2) pd_ok show ?thesis
      by (auto simp add: min_size_inv_def list_all_iff entry_min_size_def toggleMaximize_def
          Let_def upd_el_def upd_state_def
          dest!: in_update split: option.splits)
  next
    case True
    show ?thesis
    proof (cases "prevBounds (state pd)")
      case None
      with True Some assms(2) show ?thesis by (simp add: toggleMaximize_def Let_def)
    next
      case (Some prev)
      have "entry_min_size (state_of (toggleMaximize m pid)) entry"
        if "entry \<in> set (panels (state_of (toggleMaximize m pid)))" for entry
      proof -
        from that True Some \<open>map_of (panels m) pid = Some pd\<close>
        have "entry = (pid, pd\<lparr>state := (state pd)\<lparr>maximized := False\<rparr>\<rparr>) \<or> entry \<in> set (panels m)"
          by (auto simp add: toggleMaximize_def Let_def upd_el_def upd_state_def dest!: in_update)
        then show ?thesis
        proof
          assume "entry = (pid, pd\<lparr>state := (state pd)\<lparr>maximized := False\<rparr>\<rparr>)"
          with pd_ok True Some \<open>map_of (panels m) pid = Some pd\<close> show ?thesis
            by (auto simp add: entry_min_size_def toggleMaximize_def Let_def upd_el_def
                upd_state_def split: option.splits)
        next
          assume old: "entry \<in> set (panels m)"
          with assms(2) have ok: "entry_min_size m entry"
            by (simp add: min_size_inv_def list_all_iff)
          show ?thesis
          proof (cases "element (snd entry) = element pd")
            case True
            with old have "entry = (pid, pd)" by (rule other)
            with pd_ok \<open>maximized (state pd)\<close> Some \<open>map_of (panels m) pid = Some pd\<close>
            show ?thesis
              by (auto simp add: entry_min_size_def toggleMaximize_def Let_def upd_el_def
                  upd_state_def split: option.splits)
          next
            case False
            with ok \<open>maximized (state pd)\<close> Some \<open>map_of (panels m) pid = Some pd\<close>
            show ?thesis
              by (auto simp add: entry_min_size_def toggleMaximize_def Let_def upd_el_def
                  upd_state_def split: option.splits)
          qed
        qed
      qed
      then show ?thesis by (simp add: min_size_inv_def list_all_iff)
    qed
  qed
qed

lemma startDrag_min_size: "min_size_inv m \<Longrightarrow> min_size_inv (startDrag h m e a pid)"
  using focusPanel_min_size [of m pid]
  by (auto simp add: min_size_inv_def list_all_iff entry_min_size_def startDrag_def Let_def
      upd_el_def split: option.splits)

lemma startResize_min_size:
  assumes "registry_wf m" "min_size_inv m"
    and rendered: "\<And>pd. map_of (panels m) (eid (elements m a)) = Some pd \<Longrightarrow> element pd = a \<Longrightarrow>
       (touches_width d
          \<or> minWidth (config pd)
              \<le> r_width (getBoundingClientRect h (elements (focusPanel m (eid (elements m a))) a)))
       \<and> (touches_height d
          \<or> minHeight (config pd)
              \<le> r_height (getBoundingClientRect h (elements (focusPanel m (eid (elements m a))) a)))"
  shows "min_size_inv (state_of (startResize h m e a (eid (elements m a)) d))"
proof (cases "map_of (panels m) (eid (elements m a))")
  case None
  with focusPanel_min_size [OF assms(2)] show ?thesis
    by (simp add: startResize_def Let_def focusPanel_frame)
next
  case (Some pd)
  then have mem: "(eid (elements m a), pd) \<in> set (panels m)" by (rule map_of_SomeD)
  have other: "entry = (eid (elements m a), pd)"
    if "entry \<in> set (panels m)" "element (snd entry) = a" for entry
  proof -
    from that assms(1) have "fst entry = eid (elements m a)"
      by (auto simp add: registry_wf_def list_all_iff entry_wf_def)
    with that(1) mem assms(1) show ?thesis
      by (auto simp add: registry_wf_def intro: same_key_same_entry)
  qed
  have "entry_min_size (state_of (startResize h m e a (eid (elements m a)) d)) entry"
    if "entry \<in> set (panels m)" for entry
  proof -
    from that assms(2) have ok: "entry_min_size m entry"
      by (simp add: min_size_inv_def list_all_iff)
    show ?thesis
    proof (cases "element (snd entry) = a")
      case True
      with that have eq: "entry = (eid (elements m a), pd)" by (rule other)
      with True have "element pd = a" by simp
      with Some have "(touches_width d
          \<or> minWidth (config pd)
              \<le> r_width (getBoundingClientRect h (elements (focusPanel m (eid (elements m a))) a)))
       \<and> (touches_height d
          \<or> minHeight (config pd)
              \<le> r_height (getBoundingClientRect h (elements (focusPanel m (eid (elements m a))) a)))"
        by (rule rendered)
      with ok Some eq True show ?thesis
        by (auto simp add: entry_min_size_def startResize_def Let_def upd_el_def
            focusPanel_frame focusPanel_fields split: option.splits)
    next
      case False
      with ok Some show ?thesis
        by (auto simp add: entry_min_size_def startResize_def Let_def upd_el_def
            focusPanel_frame focusPanel_fields split: option.splits)
    qed
  qed
  with Some show ?thesis
    by (simp add: min_size_inv_def list_all_iff startResize_def Let_def upd_el_def
        focusPanel_frame)
qed

lemma handleResize_min_size:
  "min_size_inv m \<Longrightarrow> resizeState m = Some rs \<Longrightarrow> min_size_inv (handleResize m rs e)"
  by (auto simp add: min_size_inv_def list_all_iff entry_min_size_def handleResize_frame
      handleResize_size touches_width_def touches_height_def)

lemma handleDrag_min_size: "min_size_inv m \<Longrightarrow> min_size_inv (handleDrag h m ds e)"
  by (auto simp add: min_size_inv_def list_all_iff entry_min_size_def handleDrag_frame
      handleDrag_fields split: option.splits)

lemma handleMouseMove_min_size: "min_size_inv m \<Longrightarrow> min_size_inv (handleMouseMove h m e)"
  by (simp add: handleMouseMove_def handleDrag_min_size handleResize_min_size
      split: option.splits)

lemma handleMouseUp_min_size: "min_size_inv m \<Longrightarrow> min_size_inv (handleMouseUp h m)"
  by (auto simp add: min_size_inv_def list_all_iff entry_min_size_def handleMouseUp_def
      hideSnapGuides_def savePanelStates_frame Let_def
      upd_el_def split: option.splits)

lemma step_min_size:
  assumes "registry_wf m" "min_size_inv m" "event_keeps_min h m ev"
  shows "min_size_inv (step h m ev)"
proof (cases ev)
  case (HandleMouseDown a d e)
  show ?thesis
  proof (cases "receives m a \<and> handles (elements m a) \<and> d \<in> set handle_directions")
    case False
    with HandleMouseDown assms(2) show ?thesis by auto
  next
    case True
    with HandleMouseDown assms(3)
    have "min_size_inv (state_of (startResize h m e a (eid (elements m a)) d))"
      by (intro startResize_min_size [OF assms(1,2)])
        (simp add: resize_start_keeps_min_def Let_def)
    with True HandleMouseDown show ?thesis by simp
  qed
qed (use assms in \<open>simp_all add: createPanel_min_size closePanel_min_size showPanel_min_size
      minimizePanel_min_size toggleMaximize_min_size focusPanel_min_size
      startDrag_min_size handleMouseMove_min_size handleMouseUp_min_size\<close>)

lemma run_min_size:
  "keeps_min_run h m evs \<Longrightarrow> registry_wf m \<Longrightarrow> min_size_inv m \<Longrightarrow> min_size_inv (run h m evs)"
  by (induction evs arbitrary: m) (simp_all add: step_min_size step_registry_wf)

lemma constructor_min_size: "min_size_inv (constructor item)"
  by (simp add: min_size_inv_def constructor_panels)

lemma event_keeps_min_of_host:
  assumes "renders_at_least_style_size h" "creates_at_least_min ev" "min_size_inv m"
  shows "event_keeps_min h m ev"
proof (cases ev)
  case (CreatePanel cfg)
  with assms(2) show ?thesis by simp
next
  case (HandleMouseDown a d e)
  have "(touches_width d \<or> minWidth (config pd)
            \<le> r_width (getBoundingClientRect h (elements (focusPanel m (eid (elements m a))) a)))
      \<and> (touches_height d \<or> minHeight (config pd)
            \<le> r_height (getBoundingClientRect h (elements (focusPanel m (eid (elements m a))) a)))"
    if found: "map_of (panels m) (eid (elements m a)) = Some pd" and el: "element pd = a" for pd
  proof -
    from found have "(eid (elements m a), pd) \<in> set (panels m)" by (rule map_of_SomeD)
    with assms(3) have "entry_min_size m (eid (elements m a), pd)"
      by (simp add: min_size_inv_def list_all_iff)
    with el have inl: "minWidth (config pd) \<le> width_px (elements m a)
        \<and> minHeight (config pd) \<le> height_px (elements m a)"
      by (simp add: entry_min_size_def)
    from assms(1)
    have "width_px (elements (focusPanel m (eid (elements m a))) a)
            \<le> r_width (getBoundingClientRect h (elements (focusPanel m (eid (elements m a))) a))
        \<and> height_px (elements (focusPanel m (eid (elements m a))) a)
            \<le> r_height (getBoundingClientRect h (elements (focusPanel m (eid (elements m a))) a))"
      by (simp add: renders_at_least_style_size_def)
    with inl show ?thesis by (simp add: focusPanel_fields)
  qed
  with HandleMouseDown show ?thesis
    by (simp add: resize_start_keeps_min_def Let_def split: option.splits)
qed simp_all

lemma keeps_min_run_of_host:
  "renders_at_least_style_size h \<Longrightarrow> \<forall>ev \<in> set evs. creates_at_least_min ev \<Longrightarrow>
   registry_wf m \<Longrightarrow> min_size_inv m \<Longrightarrow> keeps_min_run h m evs"
proof (induction evs arbitrary: m)
  case Nil
  show ?case by simp
next
  case (Cons ev evs)
  from Cons.prems have ev: "event_keeps_min h m ev"
    by (simp add: event_keeps_min_of_host)
  with Cons.prems have "min_size_inv (step h m ev)" by (simp add: step_min_size)
  moreover from Cons.prems have "registry_wf (step h m ev)" by (simp add: step_registry_wf)
  ultimately have "keeps_min_run h (step h m ev) evs"
    using Cons.prems by (intro Cons.IH) simp_all
  with ev show ?case by simp
qed

text \<open>
  Claim C1 (amended). Provided every \<open>createPanel\<close> call is given a width and height
  (after the defaults) that are at least its minimum width and height, and every resize
  session that starts on a registry panel finds it rendered, in each dimension the
  handle does not change, at least as large as the panel's minimum, every panel of the
  registry has \<open>width \<ge> minWidth\<close> and \<open>height \<ge> minHeight\<close> after every sequence of
  operations (create, close, show, minimize, maximize and restore, focus, pointer-down,
  pointer-move, pointer-up), also between the pointer-moves of a resize. \<open>createPanel\<close>
  does not clamp, and \<open>handleResize\<close> clamps only the dimensions its handle changes: the
  other dimension is written back from the rendered size the session started with.
\<close>

theorem min_size_after_every_operation:
  assumes "keeps_min_run h (constructor item) evs"
    and "map_of (panels (run h (constructor item) evs)) pid = Some pd"
  shows "minWidth (config pd) \<le> width_px (elements (run h (constructor item) evs) (element pd))
       \<and> minHeight (config pd) \<le> height_px (elements (run h (constructor item) evs) (element pd))"
proof -
  have "min_size_inv (run h (constructor item) evs)"
    using assms(1) constructor_registry_wf constructor_min_size by (rule run_min_size)
  moreover from assms(2) have "(pid, pd) \<in> set (panels (run h (constructor item) evs))"
    by (rule map_of_SomeD)
  ultimately have "entry_min_size (run h (constructor item) evs) (pid, pd)"
    by (simp add: min_size_inv_def list_all_iff)
  then show ?thesis by (simp add: entry_min_size_def)
qed

text \<open>
  An instance on a host that draws a maximized panel over a workspace of
  \<open>1000 \<times> 800\<close>: the maximized panel is resized by its \<open>s\<close> handle and takes the
  rendered width \<open>1000\<close>.
\<close>

theorem min_size_after_every_operation_witness:
  "keeps_min_run (maximized_fill_host 1000 800) (constructor None) maximized_south_resize
   \<and> map_option config
        (map_of (panels (run (maximized_fill_host 1000 800) (constructor None)
                           maximized_south_resize)) ''p1'') =
      Some \<lparr>cid = ''p1'', title = ''Panel'', minWidth = 200, minHeight = 150,
            resizable = True, closable = True\<rparr>
   \<and> width_px (elements (run (maximized_fill_host 1000 800) (constructor None)
                           maximized_south_resize) 0) = 1000
   \<and> (200::rat) \<le> width_px (elements (run (maximized_fill_host 1000 800) (constructor None)
                           maximized_south_resize) 0)
   \<and> (150::rat) \<le> height_px (elements (run (maximized_fill_host 1000 800) (constructor None)
                           maximized_south_resize) 0)"
proof -
  let ?pd = "\<lparr>element = 0,
           config = \<lparr>cid = ''p1'', title = ''Panel'', minWidth = 200, minHeight = 150,
                      resizable = True, closable = True\<rparr>,
           state = \<lparr>minimized = False, maximized = True,
             prevBounds = Some \<lparr>pb_left = 100, pb_top = 100, pb_width = 300,
                                 pb_height = 200\<rparr>\<rparr>\<rparr>"
  have h1: "keeps_min_run (maximized_fill_host 1000 800) (constructor None)
      maximized_south_resize"
    unfolding maximized_south_resize_def scenario3_config_def
    by (simp add: eval_defs maximized_fill_host_def resize_start_keeps_min_def
        touches_width_def touches_height_def)
  have h2: "map_of (panels (run (maximized_fill_host 1000 800) (constructor None)
                           maximized_south_resize)) ''p1'' = Some ?pd"
    unfolding maximized_south_resize_def scenario3_config_def
    by (simp add: eval_defs maximized_fill_host_def)
  have h3: "width_px (elements (run (maximized_fill_host 1000 800) (constructor None)
                           maximized_south_resize) 0) = 1000"
    unfolding maximized_south_resize_def scenario3_config_def
    by (simp add: eval_defs maximized_fill_host_def)
  from min_size_after_every_operation [OF h1 h2] h1 h2 h3 show ?thesis
    by simp
qed

text \<open>
  The claim as stated fails in two ways. A panel created below its minimum:
  \<open>createPanel\<close> writes the config's width \<open>50\<close> and height \<open>40\<close> into the style, under
  the minimum \<open>200 \<times> 150\<close>. And a panel created at \<open>300 \<times> 200\<close> with minimum
  \<open>200 \<times> 150\<close>, maximized in a workspace \<open>150\<close> wide that the host draws it over, and
  resized by its \<open>s\<close> handle: the resize writes the rendered width \<open>150\<close> into the style.
\<close>

theorem createPanel_below_minimum_counterexample:
  "map_option (minWidth \<circ> config)
     (map_of (panels (createPanel (constructor None) undersized_config)) ''p1'') = Some 200
   \<and> map_option (minHeight \<circ> config)
     (map_of (panels (createPanel (constructor None) undersized_config)) ''p1'') = Some 150
   \<and> map_option element
     (map_of (panels (createPanel (constructor None) undersized_config)) ''p1'') = Some 0
   \<and> width_px (elements (createPanel (constructor None) undersized_config) 0) = 50
   \<and> height_px (elements (createPanel (constructor None) undersized_config) 0) = 40
   \<and> \<not> 200 \<le> width_px (elements (createPanel (constructor None) undersized_config) 0)
   \<and> \<not> 150 \<le> height_px (elements (createPanel (constructor None) undersized_config) 0)
   \<and> c_width scenario3_config = Some 300 \<and> c_minWidth scenario3_config = Some 200
   \<and> map_option (minWidth \<circ> config)
        (map_of (panels (run (maximized_fill_host 150 800) (constructor None)
                           maximized_south_resize)) ''p1'') = Some 200
   \<and> map_option element
        (map_of (panels (run (maximized_fill_host 150 800) (constructor None)
                           maximized_south_resize)) ''p1'') = Some 0
   \<and> width_px (elements (run (maximized_fill_host 150 800) (constructor None)
                           maximized_south_resize) 0) = 150
   \<and> \<not> 200 \<le> width_px (elements (run (maximized_fill_host 150 800) (constructor None)
                           maximized_south_resize) 0)"
proof -
  have a: "map_option (minWidth \<circ> config)
     (map_of (panels (createPanel (constructor None) undersized_config)) ''p1'') = Some 200
   \<and> map_option (minHeight \<circ> config)
     (map_of (panels (createPanel (constructor None) undersized_config)) ''p1'') = Some 150
   \<and> map_option element
     (map_of (panels (createPanel (constructor None) undersized_config)) ''p1'') = Some 0
   \<and> width_px (elements (createPanel (constructor None) undersized_config) 0) = 50
   \<and> height_px (elements (createPanel (constructor None) undersized_config) 0) = 40"
    unfolding undersized_config_def by (simp add: eval_defs)
  have b: "c_width scenario3_config = Some 300 \<and> c_minWidth scenario3_config = Some 200"
    by (simp add: scenario3_config_def)
  have c: "map_option (minWidth \<circ> config)
        (map_of (panels (run (maximized_fill_host 150 800) (constructor None)
                           maximized_south_resize)) ''p1'') = Some 200
   \<and> map_option element
        (map_of (panels (run (maximized_fill_host 150 800) (constructor None)
                           maximized_south_resize)) ''p1'') = Some 0
   \<and> width_px (elements (run (maximized_fill_host 150 800) (constructor None)
                           maximized_south_resize) 0) = 150"
    unfolding maximized_south_resize_def scenario3_config_def
    by (simp add: eval_defs maximized_fill_host_def)
  from a b c show ?thesis by simp
qed

end
